theory Spec2Isabelle
  imports Complex_Main
begin

section \<open>Floating-point values\<close>

text \<open>
  The numbers of the program are numpy.float64 values (pandas columns and the scalars read
  from them with iloc). A value is a finite number, one of the two infinities, or NaN.
  Finite results are exact (binary rounding and overflow are not part of this type; the
  section on rounding below adds them where a claim depends on it) and the two zeros are
  one value. The special values follow IEEE 754 as numpy implements it: a division by zero
  returns an infinity or NaN and raises nothing, and every ordering comparison with NaN is
  false.
\<close>

datatype float64 = Fin real | PInf | NInf | NaN

fun fneg :: "float64 \<Rightarrow> float64" where
  "fneg (Fin a) = Fin (- a)"
| "fneg PInf = NInf"
| "fneg NInf = PInf"
| "fneg NaN = NaN"

fun fabs :: "float64 \<Rightarrow> float64" where
  "fabs (Fin a) = Fin \<bar>a\<bar>"
| "fabs PInf = PInf"
| "fabs NInf = PInf"
| "fabs NaN = NaN"

fun fadd :: "float64 \<Rightarrow> float64 \<Rightarrow> float64" where
  "fadd NaN y = NaN"
| "fadd x NaN = NaN"
| "fadd (Fin a) (Fin b) = Fin (a + b)"
| "fadd PInf NInf = NaN"
| "fadd NInf PInf = NaN"
| "fadd PInf y = PInf"
| "fadd x PInf = PInf"
| "fadd NInf y = NInf"
| "fadd x NInf = NInf"

definition fsub :: "float64 \<Rightarrow> float64 \<Rightarrow> float64" where
  "fsub x y = fadd x (fneg y)"

definition fpos :: "float64 \<Rightarrow> bool" where
  "fpos x = (case x of Fin a \<Rightarrow> 0 < a | PInf \<Rightarrow> True | NInf \<Rightarrow> False | NaN \<Rightarrow> False)"

fun fmul :: "float64 \<Rightarrow> float64 \<Rightarrow> float64" where
  "fmul NaN y = NaN"
| "fmul x NaN = NaN"
| "fmul (Fin a) (Fin b) = Fin (a * b)"
| "fmul x y = (if x = Fin 0 \<or> y = Fin 0 then NaN
               else if fpos x = fpos y then PInf else NInf)"

fun fdiv :: "float64 \<Rightarrow> float64 \<Rightarrow> float64" where
  "fdiv NaN y = NaN"
| "fdiv x NaN = NaN"
| "fdiv (Fin a) (Fin b) =
     (if b \<noteq> 0 then Fin (a / b)
      else if a = 0 then NaN
      else if 0 < a then PInf else NInf)"
| "fdiv (Fin a) y = Fin 0"
| "fdiv x (Fin b) = (if (x = PInf) = (0 \<le> b) then PInf else NInf)"
| "fdiv x y = NaN"

fun flt :: "float64 \<Rightarrow> float64 \<Rightarrow> bool" where
  "flt NaN y = False"
| "flt x NaN = False"
| "flt (Fin a) (Fin b) = (a < b)"
| "flt NInf y = (y \<noteq> NInf)"
| "flt x PInf = (x \<noteq> PInf)"
| "flt x y = False"

fun fle :: "float64 \<Rightarrow> float64 \<Rightarrow> bool" where
  "fle NaN y = False"
| "fle x NaN = False"
| "fle (Fin a) (Fin b) = (a \<le> b)"
| "fle NInf y = True"
| "fle x PInf = True"
| "fle x y = False"

definition fgt :: "float64 \<Rightarrow> float64 \<Rightarrow> bool" where
  "fgt x y = flt y x"

definition fge :: "float64 \<Rightarrow> float64 \<Rightarrow> bool" where
  "fge x y = fle y x"

section \<open>The analyzer's state\<close>

text \<open>
  \<open>TechnicalAnalyzer\<close> keeps the price frame and two dictionaries. Each dictionary has a
  fixed set of keys, every key written by one statement of the class with a value of one
  Python type, so a dictionary is a record with one optional field per key: \<open>None\<close> is a
  key that was never written (\<open>dict.get\<close> then returns its default).
\<close>

record bar =
  Open :: real
  High :: real
  Low :: real
  Close :: real
  Volume :: real

record indicator_values =
  ind_ma_alignment :: "string option"
  ind_rsi :: "float64 option"
  ind_macd_value :: "float64 option"
  ind_macd_signal :: "float64 option"
  ind_macd_hist :: "float64 option"
  ind_bb_upper :: "float64 option"
  ind_bb_middle :: "float64 option"
  ind_bb_lower :: "float64 option"
  ind_bb_position :: "float64 option"
  ind_volume_ratio :: "float64 option"
  ind_atr :: "float64 option"

record signal_labels =
  sig_ma_cross :: "string option"
  sig_rsi :: "string option"
  sig_macd :: "string option"
  sig_bollinger :: "string option"
  sig_volume :: "string option"

record analyzer =
  df :: "bar list"
  indicators :: indicator_values
  signals :: signal_labels

text \<open>\<open>d.get(key, default)\<close> for a numeric entry.\<close>

definition get_or :: "'a option \<Rightarrow> 'a \<Rightarrow> 'a" where
  "get_or v d = (case v of None \<Rightarrow> d | Some x \<Rightarrow> x)"

section \<open>The trend score\<close>

text \<open>
  \<open>get_trend_score\<close>, statement by statement: \<open>score\<close> is a Python int that each clause
  rebinds, and the returned value is \<open>max(-100, min(100, score))\<close>.
\<close>

definition get_trend_score :: "analyzer \<Rightarrow> int" where
  "get_trend_score a =
     (let score = 0;
          score = (if ind_ma_alignment (indicators a) = Some ''bullish'' then score + 30
                   else if ind_ma_alignment (indicators a) = Some ''bearish'' then score - 30
                   else score);
          score = (if sig_ma_cross (signals a) = Some ''golden_cross'' then score + 20
                   else if sig_ma_cross (signals a) = Some ''death_cross'' then score - 20
                   else score);
          score = (if sig_macd (signals a) = Some ''golden_cross'' then score + 20
                   else if sig_macd (signals a) = Some ''death_cross'' then score - 20
                   else if fgt (get_or (ind_macd_hist (indicators a)) (Fin 0)) (Fin 0)
                     then score + 10
                   else if flt (get_or (ind_macd_hist (indicators a)) (Fin 0)) (Fin 0)
                     then score - 10
                   else score);
          rsi = get_or (ind_rsi (indicators a)) (Fin 50);
          score = (if fgt rsi (Fin 70) then score - 15
                   else if flt rsi (Fin 30) then score + 15
                   else if fle (Fin 40) rsi \<and> fle rsi (Fin 60) then score + 5
                   else score);
          score = (if sig_bollinger (signals a) = Some ''below_lower'' then score + 10
                   else if sig_bollinger (signals a) = Some ''above_upper'' then score - 10
                   else score);
          score = (if sig_volume (signals a) = Some ''high''
                   then (if score > 0 then score + 5 else score - 5)
                   else score)
      in max (- 100) (min 100 score))"

subsection \<open>The rubric, clause by clause\<close>

text \<open>
  The point rubric as the specification lists it: one contribution per clause, the
  volume clause a function of the total of the five clauses before it.
\<close>

definition ma_alignment_points :: "analyzer \<Rightarrow> int" where
  "ma_alignment_points a =
     (if ind_ma_alignment (indicators a) = Some ''bullish'' then 30
      else if ind_ma_alignment (indicators a) = Some ''bearish'' then - 30 else 0)"

definition ma_cross_points :: "analyzer \<Rightarrow> int" where
  "ma_cross_points a =
     (if sig_ma_cross (signals a) = Some ''golden_cross'' then 20
      else if sig_ma_cross (signals a) = Some ''death_cross'' then - 20 else 0)"

definition macd_points :: "analyzer \<Rightarrow> int" where
  "macd_points a =
     (if sig_macd (signals a) = Some ''golden_cross'' then 20
      else if sig_macd (signals a) = Some ''death_cross'' then - 20
      else if fgt (get_or (ind_macd_hist (indicators a)) (Fin 0)) (Fin 0) then 10
      else if flt (get_or (ind_macd_hist (indicators a)) (Fin 0)) (Fin 0) then - 10
      else 0)"

definition rsi_points :: "analyzer \<Rightarrow> int" where
  "rsi_points a =
     (let r = get_or (ind_rsi (indicators a)) (Fin 50)
      in if fgt r (Fin 70) then - 15
         else if flt r (Fin 30) then 15
         else if fle (Fin 40) r \<and> fle r (Fin 60) then 5 else 0)"

definition bollinger_points :: "analyzer \<Rightarrow> int" where
  "bollinger_points a =
     (if sig_bollinger (signals a) = Some ''below_lower'' then 10
      else if sig_bollinger (signals a) = Some ''above_upper'' then - 10 else 0)"

definition pre_volume_total :: "analyzer \<Rightarrow> int" where
  "pre_volume_total a =
     ma_alignment_points a + ma_cross_points a + macd_points a + rsi_points a
       + bollinger_points a"

definition volume_points :: "analyzer \<Rightarrow> int" where
  "volume_points a =
     (if sig_volume (signals a) = Some ''high''
      then (if pre_volume_total a > 0 then 5 else - 5)
      else 0)"

definition rubric_total :: "analyzer \<Rightarrow> int" where
  "rubric_total a = pre_volume_total a + volume_points a"

section \<open>Rounding\<close>

text \<open>
  The signal and risk module is a few lines of scalar arithmetic, so its model takes the
  rounding of the machine as a parameter: every operation computes the exact result and
  hands it to \<open>rnd\<close>. With \<open>exact\<close> the arithmetic is that of the real numbers; with
  \<open>binary64\<close> it is IEEE 754 double precision, round to nearest, ties to even, which is
  what Python and numpy compute.
\<close>

type_synonym rounding = "real \<Rightarrow> float64"

definition exact :: rounding where
  "exact x = Fin x"

definition rounded :: "rounding \<Rightarrow> float64 \<Rightarrow> float64" where
  "rounded rnd v = (case v of Fin x \<Rightarrow> rnd x | PInf \<Rightarrow> PInf | NInf \<Rightarrow> NInf | NaN \<Rightarrow> NaN)"

definition radd :: "rounding \<Rightarrow> float64 \<Rightarrow> float64 \<Rightarrow> float64" where
  "radd rnd x y = rounded rnd (fadd x y)"


definition rmul :: "rounding \<Rightarrow> float64 \<Rightarrow> float64 \<Rightarrow> float64" where
  "rmul rnd x y = rounded rnd (fmul x y)"

definition rdiv :: "rounding \<Rightarrow> float64 \<Rightarrow> float64 \<Rightarrow> float64" where
  "rdiv rnd x y = rounded rnd (fdiv x y)"

text \<open>Rounding to the nearest integer, a tie going to the even neighbour.\<close>

definition round_half_even :: "real \<Rightarrow> int" where
  "round_half_even x =
     (let f = \<lfloor>x\<rfloor>; d = x - of_int f
      in if d < 1 / 2 then f
         else if 1 / 2 < d then f + 1
         else if even f then f else f + 1)"

text \<open>
  \<open>round(x, 2)\<close>: scale by 100, round half to even, scale back; NaN and the infinities
  are returned as they are.
\<close>

definition round2 :: "rounding \<Rightarrow> float64 \<Rightarrow> float64" where
  "round2 rnd v =
     (case rmul rnd v (Fin 100) of
        Fin y \<Rightarrow> rdiv rnd (Fin (of_int (round_half_even y))) (Fin 100)
      | PInf \<Rightarrow> PInf | NInf \<Rightarrow> NInf | NaN \<Rightarrow> NaN)"

subsection \<open>Binary64\<close>




section \<open>Configuration\<close>

text \<open>
  The dictionaries of \<open>config.py\<close> that the model reads. The functions below take the
  dictionary they read as a parameter; the constants are the values of the file.
\<close>

record scoring_config =
  technical_weight :: real
  sentiment_weight :: real

record signal_thresholds =
  strong_buy :: real
  buy :: real
  sell :: real
  strong_sell :: real


definition SCORING_CONFIG :: scoring_config where
  "SCORING_CONFIG = \<lparr> technical_weight = 6 / 10, sentiment_weight = 4 / 10 \<rparr>"

definition SIGNAL_THRESHOLDS :: signal_thresholds where
  "SIGNAL_THRESHOLDS = \<lparr> strong_buy = 60, buy = 30, sell = - 30, strong_sell = - 60 \<rparr>"


section \<open>The signal generator\<close>

record signal_generator =
  technical_score :: float64
  sentiment_score :: float64
  current_price :: float64
  atr :: float64
  composite_score :: float64

text \<open>The constructor: it stores its arguments and the weighted composite score.\<close>

definition SignalGenerator ::
  "rounding \<Rightarrow> scoring_config \<Rightarrow> float64 \<Rightarrow> float64 \<Rightarrow> float64 \<Rightarrow> float64 \<Rightarrow> signal_generator"
where
  "SignalGenerator rnd sc ts ss price a =
     \<lparr> technical_score = ts, sentiment_score = ss, current_price = price, atr = a,
       composite_score =
         radd rnd (rmul rnd ts (rnd (technical_weight sc)))
                  (rmul rnd ss (rnd (sentiment_weight sc))) \<rparr>"

text \<open>
  The texts of the program that are not ASCII are constructors here. The signal texts are
  the five Chinese labels for strong buy (U+5F3A U+70C8 U+4E70 U+5165), buy (U+4E70
  U+5165), hold (U+6301 U+6709), sell (U+5356 U+51FA) and strong sell (U+5F3A U+70C8
  U+5356 U+51FA); the stop-loss method is the text \<open>ATR\<close> or the Chinese for "fixed
  percentage" (U+56FA U+5B9A U+767E U+5206 U+6BD4); a level is one of the characters for
  low (U+4F4E), medium (U+4E2D) and high (U+9AD8). The emoji and the advice text of a
  signal are fixed by its label and are left out.
\<close>

datatype signal_text = Strong_buy | Buy | Hold | Sell | Strong_sell



record signal_info =
  signal :: signal_text
  color :: string
  info_composite_score :: float64
  info_technical_score :: float64
  info_sentiment_score :: float64

definition generate_signal ::
  "rounding \<Rightarrow> signal_thresholds \<Rightarrow> signal_generator \<Rightarrow> signal_info"
where
  "generate_signal rnd th sg =
     (let score = composite_score sg;
          (signal, color) =
            (if fgt score (Fin (strong_buy th)) then (Strong_buy, ''green'')
             else if fgt score (Fin (buy th)) then (Buy, ''green'')
             else if fgt score (Fin (sell th)) then (Hold, ''yellow'')
             else if fgt score (Fin (strong_sell th)) then (Sell, ''red'')
             else (Strong_sell, ''red''))
      in \<lparr> signal = signal, color = color,
           info_composite_score = round2 rnd score,
           info_technical_score = round2 rnd (technical_score sg),
           info_sentiment_score = round2 rnd (sentiment_score sg) \<rparr>)"




text \<open>The strength of a signal, for comparing two of them.\<close>

fun strength :: "signal_text \<Rightarrow> nat" where
  "strength Strong_sell = 0"
| "strength Sell = 1"
| "strength Hold = 2"
| "strength Buy = 3"
| "strength Strong_buy = 4"

section \<open>Series operations\<close>

text \<open>
  The pandas operations the indicator engine calls, on a column of float64 values. The
  columns the engine passes to them hold finite numbers and NaN only. Their finite
  arithmetic is exact: pandas updates a rolling sum incrementally, and the roundings of
  that computation are not part of the model.
\<close>

datatype py_error = IndexError | KeyError

definition and_then :: "py_error + 'a \<Rightarrow> ('a \<Rightarrow> py_error + 'b) \<Rightarrow> py_error + 'b" where
  "and_then m f = (case m of Inl e \<Rightarrow> Inl e | Inr v \<Rightarrow> f v)"

text \<open>\<open>series.iloc[i]\<close>: a negative index counts from the end; out of range raises.\<close>

definition iloc :: "'a list \<Rightarrow> int \<Rightarrow> py_error + 'a" where
  "iloc xs i =
     (if 0 \<le> i \<and> i < int (length xs) then Inr (xs ! nat i)
      else if i < 0 \<and> - int (length xs) \<le> i then Inr (xs ! nat (int (length xs) + i))
      else Inl IndexError)"

fun finite_values :: "float64 list \<Rightarrow> real list option" where
  "finite_values [] = Some []"
| "finite_values (Fin x # vs) =
     (case finite_values vs of None \<Rightarrow> None | Some xs \<Rightarrow> Some (x # xs))"
| "finite_values (v # vs) = None"

text \<open>The \<open>w\<close> values of a column that end at row \<open>i\<close>.\<close>

definition window :: "nat \<Rightarrow> nat \<Rightarrow> 'a list \<Rightarrow> 'a list" where
  "window w i col = take w (drop (Suc i - w) col)"

text \<open>
  \<open>col.rolling(window=w).f()\<close>: with the default \<open>min_periods\<close> a row has a value
  only when its window is full and holds no NaN.
\<close>

definition rolling :: "nat \<Rightarrow> (real list \<Rightarrow> float64) \<Rightarrow> float64 list \<Rightarrow> float64 list" where
  "rolling w f col =
     map (\<lambda>i. if Suc i < w then NaN
              else (case finite_values (window w i col) of
                      None \<Rightarrow> NaN
                    | Some xs \<Rightarrow> f xs))
         [0..<length col]"

definition mean :: "real list \<Rightarrow> float64" where
  "mean xs = Fin (sum_list xs / real (length xs))"

text \<open>The sample standard deviation (pandas divides by \<open>n - 1\<close>).\<close>

definition std :: "real list \<Rightarrow> float64" where
  "std xs =
     (if length xs < 2 then NaN
      else (let m = sum_list xs / real (length xs)
            in Fin (sqrt (sum_list (map (\<lambda>x. (x - m) ^ 2) xs) / (real (length xs) - 1)))))"

definition rolling_mean :: "nat \<Rightarrow> float64 list \<Rightarrow> float64 list" where
  "rolling_mean w col = rolling w mean col"

definition rolling_std :: "nat \<Rightarrow> float64 list \<Rightarrow> float64 list" where
  "rolling_std w col = rolling w std col"

text \<open>\<open>col.diff()\<close> and \<open>col.shift(1)\<close>: the first row is NaN.\<close>

definition shift :: "float64 list \<Rightarrow> float64 list" where
  "shift col = (case col of [] \<Rightarrow> [] | x # xs \<Rightarrow> NaN # butlast col)"

definition diff :: "float64 list \<Rightarrow> float64 list" where
  "diff col = map2 fsub col (shift col)"

text \<open>
  \<open>col.ewm(span=s, adjust=False).mean()\<close>: the first row is the first value, every later
  row is \<open>(1 - alpha) * previous + alpha * value\<close> with \<open>alpha = 2 / (s + 1)\<close>.
\<close>

fun ewm_from :: "real \<Rightarrow> float64 \<Rightarrow> float64 list \<Rightarrow> float64 list" where
  "ewm_from al y [] = []"
| "ewm_from al y (x # xs) =
     (let y' = fadd (fmul (Fin (1 - al)) y) (fmul (Fin al) x) in y' # ewm_from al y' xs)"

definition ewm_mean :: "nat \<Rightarrow> float64 list \<Rightarrow> float64 list" where
  "ewm_mean s col =
     (case col of [] \<Rightarrow> [] | x # xs \<Rightarrow> x # ewm_from (2 / (real s + 1)) x xs)"

text \<open>The maximum of a row that skips NaN, as \<open>DataFrame.max(axis=1)\<close> does.\<close>

definition nanmax :: "float64 list \<Rightarrow> float64" where
  "nanmax vs =
     (case filter (\<lambda>v. v \<noteq> NaN) vs of
        [] \<Rightarrow> NaN
      | v # rest \<Rightarrow> foldl (\<lambda>m x. if flt m x then x else m) v rest)"

section \<open>The indicator engine\<close>

record technical_config =
  lookback_days :: nat
  rsi_period :: nat
  macd_fast :: nat
  macd_slow :: nat
  macd_signal :: nat
  bb_period :: nat
  bb_std :: real
  volume_ma_period :: nat
  ma_periods :: "nat list"

definition TECHNICAL_CONFIG :: technical_config where
  "TECHNICAL_CONFIG =
     \<lparr> lookback_days = 90, rsi_period = 14, macd_fast = 12, macd_slow = 26, macd_signal = 9,
       bb_period = 20, bb_std = 2, volume_ma_period = 20, ma_periods = [5, 10, 20, 50] \<rparr>"

text \<open>The constructor: the frame and two empty dictionaries.\<close>

definition TechnicalAnalyzer :: "bar list \<Rightarrow> analyzer" where
  "TechnicalAnalyzer bars =
     \<lparr> df = bars,
       indicators = \<lparr> ind_ma_alignment = None, ind_rsi = None,
         ind_macd_value = None, ind_macd_signal = None, ind_macd_hist = None,
         ind_bb_upper = None, ind_bb_middle = None, ind_bb_lower = None,
         ind_bb_position = None, ind_volume_ratio = None, ind_atr = None \<rparr>,
       signals = \<lparr> sig_ma_cross = None, sig_rsi = None, sig_macd = None,
         sig_bollinger = None, sig_volume = None \<rparr> \<rparr>"

text \<open>The columns of the frame.\<close>

definition close_column :: "bar list \<Rightarrow> float64 list" where
  "close_column bars = map (\<lambda>b. Fin (Close b)) bars"

definition high_column :: "bar list \<Rightarrow> float64 list" where
  "high_column bars = map (\<lambda>b. Fin (High b)) bars"

definition low_column :: "bar list \<Rightarrow> float64 list" where
  "low_column bars = map (\<lambda>b. Fin (Low b)) bars"

definition volume_column :: "bar list \<Rightarrow> float64 list" where
  "volume_column bars = map (\<lambda>b. Fin (Volume b)) bars"

text \<open>
  The engine also stores each computed column in the frame. Only the moving averages are
  read back by name (\<open>df['MA5']\<close>, a KeyError when the period is not configured); they are
  the list \<open>ma_columns\<close>, keyed by period. The other columns are read where they are
  computed and are local values here.
\<close>

definition ma_columns :: "bar list \<Rightarrow> (nat \<times> float64 list) list" where
  "ma_columns bars = map (\<lambda>period. (period, rolling_mean period (close_column bars)))
                      (ma_periods TECHNICAL_CONFIG)"

definition ma_column :: "bar list \<Rightarrow> nat \<Rightarrow> py_error + float64 list" where
  "ma_column bars period =
     (case map_of (ma_columns bars) period of None \<Rightarrow> Inl KeyError | Some col \<Rightarrow> Inr col)"

text \<open>A list comprehension whose elements may raise: the first error ends it.\<close>

fun collect :: "(py_error + 'a) list \<Rightarrow> py_error + 'a list" where
  "collect [] = Inr []"
| "collect (m # ms) =
     (case m of
        Inl e \<Rightarrow> Inl e
      | Inr v \<Rightarrow> (case collect ms of Inl e \<Rightarrow> Inl e | Inr vs \<Rightarrow> Inr (v # vs)))"

text \<open>The label of a crossover from the values one row ago and now.\<close>

definition cross_label :: "float64 \<Rightarrow> float64 \<Rightarrow> float64 \<Rightarrow> float64 \<Rightarrow> string" where
  "cross_label fast_prev slow_prev fast_curr slow_curr =
     (if fle fast_prev slow_prev \<and> fgt fast_curr slow_curr then ''golden_cross''
      else if fge fast_prev slow_prev \<and> flt fast_curr slow_curr then ''death_cross''
      else ''none'')"

definition calculate_ma :: "analyzer \<Rightarrow> py_error + analyzer" where
  "calculate_ma a =
     and_then
       (collect (map (\<lambda>p. and_then (ma_column (df a) p) (\<lambda>col. iloc col (- 1)))
                     (ma_periods TECHNICAL_CONFIG)))
       (\<lambda>ma_values.
          let is_bullish = list_all (\<lambda>(x, y). fgt x y) (zip ma_values (tl ma_values));
              is_bearish = list_all (\<lambda>(x, y). flt x y) (zip ma_values (tl ma_values));
              a = a \<lparr> indicators := (indicators a) \<lparr> ind_ma_alignment :=
                        Some (if is_bullish then ''bullish''
                              else if is_bearish then ''bearish'' else ''mixed'') \<rparr> \<rparr>
          in if 2 \<le> length (df a)
             then
               and_then (and_then (ma_column (df a) 5) (\<lambda>col. iloc col (- 1))) (\<lambda>ma5_curr.
               and_then (and_then (ma_column (df a) 5) (\<lambda>col. iloc col (- 2))) (\<lambda>ma5_prev.
               and_then (and_then (ma_column (df a) 20) (\<lambda>col. iloc col (- 1))) (\<lambda>ma20_curr.
               and_then (and_then (ma_column (df a) 20) (\<lambda>col. iloc col (- 2))) (\<lambda>ma20_prev.
                 Inr (a \<lparr> signals := (signals a) \<lparr> sig_ma_cross :=
                        Some (cross_label ma5_prev ma20_prev ma5_curr ma20_curr) \<rparr> \<rparr>)))))
             else Inr a)"

text \<open>The two rolling averages of \<open>calculate_rsi\<close> and the RSI column.\<close>

definition rsi_gain :: "nat \<Rightarrow> float64 list \<Rightarrow> float64 list" where
  "rsi_gain period close =
     rolling_mean period (map (\<lambda>d. if fgt d (Fin 0) then d else Fin 0) (diff close))"

definition rsi_loss :: "nat \<Rightarrow> float64 list \<Rightarrow> float64 list" where
  "rsi_loss period close =
     rolling_mean period (map (\<lambda>d. fneg (if flt d (Fin 0) then d else Fin 0)) (diff close))"

definition rsi_column :: "nat \<Rightarrow> float64 list \<Rightarrow> float64 list" where
  "rsi_column period close =
     (let gain = rsi_gain period close;
          loss = rsi_loss period close;
          rs = map2 fdiv gain loss
      in map (\<lambda>r. fsub (Fin 100) (fdiv (Fin 100) (fadd (Fin 1) r))) rs)"

definition calculate_rsi :: "analyzer \<Rightarrow> py_error + analyzer" where
  "calculate_rsi a =
     (let period = rsi_period TECHNICAL_CONFIG
      in and_then (iloc (rsi_column period (close_column (df a))) (- 1)) (\<lambda>current_rsi.
           Inr (a \<lparr> indicators := (indicators a) \<lparr> ind_rsi := Some current_rsi \<rparr>,
                    signals := (signals a) \<lparr> sig_rsi :=
                      Some (if fgt current_rsi (Fin 70) then ''overbought''
                            else if flt current_rsi (Fin 30) then ''oversold''
                            else ''neutral'') \<rparr> \<rparr>)))"

definition macd_column :: "float64 list \<Rightarrow> float64 list" where
  "macd_column close =
     map2 fsub (ewm_mean (macd_fast TECHNICAL_CONFIG) close)
               (ewm_mean (macd_slow TECHNICAL_CONFIG) close)"

definition macd_signal_column :: "float64 list \<Rightarrow> float64 list" where
  "macd_signal_column close = ewm_mean (macd_signal TECHNICAL_CONFIG) (macd_column close)"

definition macd_hist_column :: "float64 list \<Rightarrow> float64 list" where
  "macd_hist_column close = map2 fsub (macd_column close) (macd_signal_column close)"

definition calculate_macd :: "analyzer \<Rightarrow> py_error + analyzer" where
  "calculate_macd a =
     (let close = close_column (df a)
      in if 2 \<le> length (df a)
         then
           and_then (iloc (macd_column close) (- 1)) (\<lambda>macd_curr.
           and_then (iloc (macd_column close) (- 2)) (\<lambda>macd_prev.
           and_then (iloc (macd_signal_column close) (- 1)) (\<lambda>signal_curr.
           and_then (iloc (macd_signal_column close) (- 2)) (\<lambda>signal_prev.
           and_then (iloc (macd_hist_column close) (- 1)) (\<lambda>hist_curr.
             Inr (a \<lparr> signals := (signals a) \<lparr> sig_macd :=
                        Some (cross_label macd_prev signal_prev macd_curr signal_curr) \<rparr>,
                      indicators := (indicators a) \<lparr> ind_macd_value := Some macd_curr,
                        ind_macd_signal := Some signal_curr,
                        ind_macd_hist := Some hist_curr \<rparr> \<rparr>))))))
         else Inr a)"

definition bb_middle_column :: "float64 list \<Rightarrow> float64 list" where
  "bb_middle_column close = rolling_mean (bb_period TECHNICAL_CONFIG) close"

definition bb_upper_column :: "float64 list \<Rightarrow> float64 list" where
  "bb_upper_column close =
     map2 fadd (bb_middle_column close)
       (map (\<lambda>s. fmul s (Fin (bb_std TECHNICAL_CONFIG)))
            (rolling_std (bb_period TECHNICAL_CONFIG) close))"

definition bb_lower_column :: "float64 list \<Rightarrow> float64 list" where
  "bb_lower_column close =
     map2 fsub (bb_middle_column close)
       (map (\<lambda>s. fmul s (Fin (bb_std TECHNICAL_CONFIG)))
            (rolling_std (bb_period TECHNICAL_CONFIG) close))"

definition calculate_bollinger_bands :: "analyzer \<Rightarrow> py_error + analyzer" where
  "calculate_bollinger_bands a =
     (let close = close_column (df a)
      in and_then (iloc close (- 1)) (\<lambda>current_price.
         and_then (iloc (bb_upper_column close) (- 1)) (\<lambda>bb_upper.
         and_then (iloc (bb_middle_column close) (- 1)) (\<lambda>bb_middle.
         and_then (iloc (bb_lower_column close) (- 1)) (\<lambda>bb_lower.
           let bb_position =
                 fmul (fdiv (fsub current_price bb_lower) (fsub bb_upper bb_lower)) (Fin 100)
           in Inr (a \<lparr> indicators := (indicators a) \<lparr> ind_bb_upper := Some bb_upper,
                          ind_bb_middle := Some bb_middle, ind_bb_lower := Some bb_lower,
                          ind_bb_position := Some bb_position \<rparr>,
                        signals := (signals a) \<lparr> sig_bollinger :=
                          Some (if fgt current_price bb_upper then ''above_upper''
                                else if flt current_price bb_lower then ''below_lower''
                                else ''within_bands'') \<rparr> \<rparr>))))))"

definition calculate_volume_indicators :: "analyzer \<Rightarrow> py_error + analyzer" where
  "calculate_volume_indicators a =
     (let period = volume_ma_period TECHNICAL_CONFIG;
          volume_ma = rolling_mean period (volume_column (df a))
      in and_then (iloc (volume_column (df a)) (- 1)) (\<lambda>current_volume.
         and_then (iloc volume_ma (- 1)) (\<lambda>avg_volume.
           let volume_ratio =
                 (if fgt avg_volume (Fin 0) then fdiv current_volume avg_volume else Fin 1)
           in Inr (a \<lparr> indicators := (indicators a) \<lparr> ind_volume_ratio := Some volume_ratio \<rparr>,
                        signals := (signals a) \<lparr> sig_volume :=
                          Some (if fgt volume_ratio (Fin (3 / 2)) then ''high''
                                else if flt volume_ratio (Fin (1 / 2)) then ''low''
                                else ''normal'') \<rparr> \<rparr>))))"

text \<open>The true range and its rolling mean; the period is read from \<open>rsi_period\<close>.\<close>

definition true_range :: "bar list \<Rightarrow> float64 list" where
  "true_range bars =
     (let high = high_column bars;
          low = low_column bars;
          close = shift (close_column bars);
          tr1 = map2 fsub high low;
          tr2 = map fabs (map2 fsub high close);
          tr3 = map fabs (map2 fsub low close)
      in map (\<lambda>(x, y, z). nanmax [x, y, z]) (zip tr1 (zip tr2 tr3)))"

definition atr_column :: "bar list \<Rightarrow> float64 list" where
  "atr_column bars = rolling_mean (rsi_period TECHNICAL_CONFIG) (true_range bars)"

definition calculate_atr :: "analyzer \<Rightarrow> py_error + analyzer" where
  "calculate_atr a =
     and_then (iloc (atr_column (df a)) (- 1)) (\<lambda>v.
       Inr (a \<lparr> indicators := (indicators a) \<lparr> ind_atr := Some v \<rparr> \<rparr>))"

definition calculate_all :: "analyzer \<Rightarrow> py_error + analyzer" where
  "calculate_all a =
     and_then (calculate_ma a) (\<lambda>a.
     and_then (calculate_rsi a) (\<lambda>a.
     and_then (calculate_macd a) (\<lambda>a.
     and_then (calculate_bollinger_bands a) (\<lambda>a.
     and_then (calculate_volume_indicators a) (\<lambda>a.
       calculate_atr a)))))"



section \<open>The engine on a frame with at least one row\<close>

text \<open>
  On a frame with at least one row no \<open>iloc\<close> of the engine is out of range, and each
  method is a plain update of the two dictionaries. The functions below are these
  updates; the lemmas of section "Properties of the indicator engine" prove that each
  method returns them.
\<close>

definition ma_latest :: "bar list \<Rightarrow> nat \<Rightarrow> float64" where
  "ma_latest bars period = last (rolling_mean period (close_column bars))"

definition ma_previous :: "bar list \<Rightarrow> nat \<Rightarrow> float64" where
  "ma_previous bars period = rolling_mean period (close_column bars) ! (length bars - 2)"

definition ma_result :: "analyzer \<Rightarrow> analyzer" where
  "ma_result a =
     (let ma_values = map (ma_latest (df a)) (ma_periods TECHNICAL_CONFIG);
          is_bullish = list_all (\<lambda>(x, y). fgt x y) (zip ma_values (tl ma_values));
          is_bearish = list_all (\<lambda>(x, y). flt x y) (zip ma_values (tl ma_values));
          a = a \<lparr> indicators := (indicators a) \<lparr> ind_ma_alignment :=
                    Some (if is_bullish then ''bullish''
                          else if is_bearish then ''bearish'' else ''mixed'') \<rparr> \<rparr>
      in if 2 \<le> length (df a)
         then a \<lparr> signals := (signals a) \<lparr> sig_ma_cross :=
                  Some (cross_label (ma_previous (df a) 5) (ma_previous (df a) 20)
                                    (ma_latest (df a) 5) (ma_latest (df a) 20)) \<rparr> \<rparr>
         else a)"

definition rsi_result :: "analyzer \<Rightarrow> analyzer" where
  "rsi_result a =
     (let current_rsi = last (rsi_column (rsi_period TECHNICAL_CONFIG) (close_column (df a)))
      in a \<lparr> indicators := (indicators a) \<lparr> ind_rsi := Some current_rsi \<rparr>,
             signals := (signals a) \<lparr> sig_rsi :=
               Some (if fgt current_rsi (Fin 70) then ''overbought''
                     else if flt current_rsi (Fin 30) then ''oversold''
                     else ''neutral'') \<rparr> \<rparr>)"

definition macd_result :: "analyzer \<Rightarrow> analyzer" where
  "macd_result a =
     (let close = close_column (df a); n = length (df a)
      in if 2 \<le> n
         then a \<lparr> signals := (signals a) \<lparr> sig_macd :=
                    Some (cross_label (macd_column close ! (n - 2))
                            (macd_signal_column close ! (n - 2))
                            (last (macd_column close)) (last (macd_signal_column close))) \<rparr>,
                  indicators := (indicators a) \<lparr> ind_macd_value := Some (last (macd_column close)),
                    ind_macd_signal := Some (last (macd_signal_column close)),
                    ind_macd_hist := Some (last (macd_hist_column close)) \<rparr> \<rparr>
         else a)"

definition bollinger_result :: "analyzer \<Rightarrow> analyzer" where
  "bollinger_result a =
     (let close = close_column (df a);
          current_price = last close;
          bb_upper = last (bb_upper_column close);
          bb_middle = last (bb_middle_column close);
          bb_lower = last (bb_lower_column close);
          bb_position =
            fmul (fdiv (fsub current_price bb_lower) (fsub bb_upper bb_lower)) (Fin 100)
      in a \<lparr> indicators := (indicators a) \<lparr> ind_bb_upper := Some bb_upper,
                ind_bb_middle := Some bb_middle, ind_bb_lower := Some bb_lower,
                ind_bb_position := Some bb_position \<rparr>,
              signals := (signals a) \<lparr> sig_bollinger :=
                Some (if fgt current_price bb_upper then ''above_upper''
                      else if flt current_price bb_lower then ''below_lower''
                      else ''within_bands'') \<rparr> \<rparr>)"

definition volume_result :: "analyzer \<Rightarrow> analyzer" where
  "volume_result a =
     (let current_volume = last (volume_column (df a));
          avg_volume = last (rolling_mean (volume_ma_period TECHNICAL_CONFIG) (volume_column (df a)));
          volume_ratio =
            (if fgt avg_volume (Fin 0) then fdiv current_volume avg_volume else Fin 1)
      in a \<lparr> indicators := (indicators a) \<lparr> ind_volume_ratio := Some volume_ratio \<rparr>,
              signals := (signals a) \<lparr> sig_volume :=
                Some (if fgt volume_ratio (Fin (3 / 2)) then ''high''
                      else if flt volume_ratio (Fin (1 / 2)) then ''low''
                      else ''normal'') \<rparr> \<rparr>)"

definition atr_result :: "analyzer \<Rightarrow> analyzer" where
  "atr_result a = a \<lparr> indicators := (indicators a) \<lparr> ind_atr := Some (last (atr_column (df a))) \<rparr> \<rparr>"

definition all_result :: "analyzer \<Rightarrow> analyzer" where
  "all_result a =
     atr_result (volume_result (bollinger_result (macd_result (rsi_result (ma_result a)))))"

section \<open>Notions of the specification\<close>

text \<open>
  What the claims speak of, written from the words of the specification and not from the
  code: the simple moving average, the crossover of the two shortest windows, a flat
  run of bars and a rising run of closes.
\<close>

text \<open>
  The simple moving average as the specification defines it: the mean of the \<open>w\<close> closes
  that end at row \<open>i\<close>, and no value before row \<open>w - 1\<close>.
\<close>

definition sma :: "real list \<Rightarrow> nat \<Rightarrow> nat \<Rightarrow> float64" where
  "sma closes w i =
     (if Suc i < w then NaN
      else Fin (sum_list (map (\<lambda>j. closes ! j) [Suc i - w..<Suc i]) / real w))"

text \<open>
  The crossover rule in the specification's words: it compares the two shortest configured
  windows at the last two bars.
\<close>

definition spec_ma_cross :: "real list \<Rightarrow> string option" where
  "spec_ma_cross closes =
     (case sort (ma_periods TECHNICAL_CONFIG) of
        shorter # longer # rest \<Rightarrow>
          (if 2 \<le> length closes
           then (let n = length closes
                 in Some (if fle (sma closes shorter (n - 2)) (sma closes longer (n - 2))
                             \<and> fgt (sma closes shorter (n - 1)) (sma closes longer (n - 1))
                          then ''golden_cross''
                          else if fge (sma closes shorter (n - 2)) (sma closes longer (n - 2))
                             \<and> flt (sma closes shorter (n - 1)) (sma closes longer (n - 1))
                          then ''death_cross''
                          else ''none''))
           else None)
      | _ \<Rightarrow> None)"


text \<open>
  A close series that covers the RSI window and rises strictly at every step inside it:
  the window of the latest bar holds the last 14 differences (the difference of the first
  bar of a frame has no value and counts as 0).
\<close>

definition rising_window :: "real list \<Rightarrow> bool" where
  "rising_window closes =
     (rsi_period TECHNICAL_CONFIG \<le> length closes
      \<and> list_all (\<lambda>j. closes ! (j - 1) < closes ! j)
           [max 1 (length closes - rsi_period TECHNICAL_CONFIG)..<length closes])"

text \<open>The rise of the close at row \<open>j\<close>, 0 at the first row.\<close>

definition step_up :: "bar list \<Rightarrow> nat \<Rightarrow> real" where
  "step_up bars j = (if j = 0 then 0 else Close (bars ! j) - Close (bars ! (j - 1)))"

section \<open>Sample inputs\<close>

text \<open>An analyzer state in which every clause of the rubric fires upwards.\<close>

definition all_up :: analyzer where
  "all_up =
     \<lparr> df = [],
       indicators = \<lparr> ind_ma_alignment = Some ''bullish'', ind_rsi = Some (Fin 25),
         ind_macd_value = None, ind_macd_signal = None, ind_macd_hist = None,
         ind_bb_upper = None, ind_bb_middle = None, ind_bb_lower = None,
         ind_bb_position = None, ind_volume_ratio = None, ind_atr = None \<rparr>,
       signals = \<lparr> sig_ma_cross = Some ''golden_cross'', sig_rsi = Some ''oversold'',
         sig_macd = Some ''golden_cross'', sig_bollinger = Some ''below_lower'',
         sig_volume = Some ''high'' \<rparr> \<rparr>"

text \<open>
  A state with a high volume in which the five earlier clauses add nothing: the labels are
  missing and the RSI of 35 lies in no band.
\<close>

definition only_volume :: analyzer where
  "only_volume =
     \<lparr> df = [],
       indicators = \<lparr> ind_ma_alignment = None, ind_rsi = Some (Fin 35),
         ind_macd_value = None, ind_macd_signal = None, ind_macd_hist = None,
         ind_bb_upper = None, ind_bb_middle = None, ind_bb_lower = None,
         ind_bb_position = None, ind_volume_ratio = None, ind_atr = None \<rparr>,
       signals = \<lparr> sig_ma_cross = None, sig_rsi = None, sig_macd = None,
         sig_bollinger = None, sig_volume = Some ''high'' \<rparr> \<rparr>"

text \<open>
  Signal generators: a price of 100 with an ATR of 1 and of 5 under exact arithmetic, and a
  price of 10 with an ATR of 1 under binary64.
\<close>

definition calm_generator :: signal_generator where
  "calm_generator = SignalGenerator exact SCORING_CONFIG (Fin 50) (Fin 20) (Fin 100) (Fin 1)"

definition rough_generator :: signal_generator where
  "rough_generator = SignalGenerator exact SCORING_CONFIG (Fin (- 50)) (Fin 20) (Fin 100) (Fin 5)"


text \<open>A bar whose four prices are the same number, and a frame of one such bar.\<close>

definition flat_bar :: "real \<Rightarrow> bar" where
  "flat_bar c = \<lparr> Open = c, High = c, Low = c, Close = c, Volume = 1000 \<rparr>"

definition one_bar :: "bar list" where
  "one_bar = [flat_bar 100]"

text \<open>
  Twenty-two bars: eleven closes at 30, ten at 10 and a last one at 20.
\<close>

definition dip_closes :: "real list" where
  "dip_closes = [30, 30, 30, 30, 30, 30, 30, 30, 30, 30, 30,
                 10, 10, 10, 10, 10, 10, 10, 10, 10, 10, 20]"

definition dip_series :: "bar list" where
  "dip_series = map flat_bar dip_closes"

text \<open>Twenty-one bars: twenty closes at 10 and a last one at 20.\<close>

definition step_closes :: "real list" where
  "step_closes = [10, 10, 10, 10, 10, 10, 10, 10, 10, 10,
                  10, 10, 10, 10, 10, 10, 10, 10, 10, 10, 20]"

definition step_series :: "bar list" where
  "step_series = map flat_bar step_closes"



text \<open>Fifteen bars that close at 1, 2, ..., 15.\<close>

definition rise_closes :: "real list" where
  "rise_closes = [1, 2, 3, 4, 5, 6, 7, 8, 9, 10, 11, 12, 13, 14, 15]"

definition rise_series :: "bar list" where
  "rise_series = map flat_bar rise_closes"

section \<open>Properties of the trend score\<close>

lemma ma_alignment_step:
  "(if ind_ma_alignment (indicators a) = Some ''bullish'' then s + 30
    else if ind_ma_alignment (indicators a) = Some ''bearish'' then s - 30 else s)
   = s + ma_alignment_points a"
  by (simp add: ma_alignment_points_def)

lemma ma_cross_step:
  "(if sig_ma_cross (signals a) = Some ''golden_cross'' then s + 20
    else if sig_ma_cross (signals a) = Some ''death_cross'' then s - 20 else s)
   = s + ma_cross_points a"
  by (simp add: ma_cross_points_def)

lemma macd_step:
  "(if sig_macd (signals a) = Some ''golden_cross'' then s + 20
    else if sig_macd (signals a) = Some ''death_cross'' then s - 20
    else if fgt (get_or (ind_macd_hist (indicators a)) (Fin 0)) (Fin 0) then s + 10
    else if flt (get_or (ind_macd_hist (indicators a)) (Fin 0)) (Fin 0) then s - 10
    else s)
   = s + macd_points a"
  by (simp add: macd_points_def)

lemma rsi_step:
  "(if fgt (get_or (ind_rsi (indicators a)) (Fin 50)) (Fin 70) then s - 15
    else if flt (get_or (ind_rsi (indicators a)) (Fin 50)) (Fin 30) then s + 15
    else if fle (Fin 40) (get_or (ind_rsi (indicators a)) (Fin 50))
          \<and> fle (get_or (ind_rsi (indicators a)) (Fin 50)) (Fin 60) then s + 5
    else s)
   = s + rsi_points a"
  by (simp add: rsi_points_def Let_def)

lemma bollinger_step:
  "(if sig_bollinger (signals a) = Some ''below_lower'' then s + 10
    else if sig_bollinger (signals a) = Some ''above_upper'' then s - 10 else s)
   = s + bollinger_points a"
  by (simp add: bollinger_points_def)

lemma volume_step:
  "(if sig_volume (signals a) = Some ''high''
    then (if pre_volume_total a > 0 then pre_volume_total a + 5 else pre_volume_total a - 5)
    else pre_volume_total a)
   = pre_volume_total a + volume_points a"
  by (simp add: volume_points_def)

lemma get_trend_score_rubric:
  "get_trend_score a = max (- 100) (min 100 (rubric_total a))"
proof -
  have pre: "0 + ma_alignment_points a + ma_cross_points a + macd_points a + rsi_points a
      + bollinger_points a = pre_volume_total a"
    by (simp add: pre_volume_total_def)
  show ?thesis
    unfolding get_trend_score_def Let_def ma_alignment_step ma_cross_step macd_step
      rsi_step bollinger_step pre volume_step rubric_total_def ..
qed

text \<open>
  The five clauses before the volume clause can reach at most 95 in absolute value, and the
  whole rubric at most 100, so the final \<open>max\<close>/\<open>min\<close> never changes the sum.
\<close>

lemma ma_alignment_points_bounds: "- 30 \<le> ma_alignment_points a \<and> ma_alignment_points a \<le> 30"
  by (simp add: ma_alignment_points_def)

lemma ma_cross_points_bounds: "- 20 \<le> ma_cross_points a \<and> ma_cross_points a \<le> 20"
  by (simp add: ma_cross_points_def)

lemma macd_points_bounds: "- 20 \<le> macd_points a \<and> macd_points a \<le> 20"
  by (simp add: macd_points_def)

lemma rsi_points_bounds: "- 15 \<le> rsi_points a \<and> rsi_points a \<le> 15"
  by (simp add: rsi_points_def Let_def)

lemma bollinger_points_bounds: "- 10 \<le> bollinger_points a \<and> bollinger_points a \<le> 10"
  by (simp add: bollinger_points_def)

lemma pre_volume_total_bounds: "- 95 \<le> pre_volume_total a \<and> pre_volume_total a \<le> 95"
  using ma_alignment_points_bounds [of a] ma_cross_points_bounds [of a]
    macd_points_bounds [of a] rsi_points_bounds [of a] bollinger_points_bounds [of a]
  unfolding pre_volume_total_def by linarith

lemma rubric_total_bounds: "- 100 \<le> rubric_total a \<and> rubric_total a \<le> 100"
  using pre_volume_total_bounds [of a]
  by (simp add: rubric_total_def volume_points_def)

text \<open>
  Claim C1. For every indicator set (any labels and numbers, entries missing or not, NaN and
  infinities included) the trend score lies in [-100, 100], and it is the clipped value of
  the sum of all six rubric clauses: the volume clause is part of the sum that is clipped.
\<close>

theorem trend_score_bounded:
  "- 100 \<le> get_trend_score a \<and> get_trend_score a \<le> 100
     \<and> get_trend_score a = max (- 100) (min 100 (rubric_total a))"
  by (simp add: get_trend_score_rubric)

theorem trend_score_bounded_witness:
  "get_trend_score all_up = 100 \<and> rubric_total all_up = 100"
proof -
  have "rubric_total all_up = 100"
    by (simp add: rubric_total_def volume_points_def pre_volume_total_def
        ma_alignment_points_def ma_cross_points_def macd_points_def rsi_points_def
        bollinger_points_def all_up_def get_or_def fgt_def Let_def)
  then show ?thesis
    using trend_score_bounded [of all_up] by simp
qed

text \<open>
  Claim C4. The volume clause adds points only when the volume signal is \<open>high\<close>; it is
  applied to the total of the five clauses before it and adds 5 when that total is
  positive and takes 5 off when it is zero or negative. The total it reads is the sum
  before any clipping.
\<close>

theorem volume_clause_after_sum:
  "get_trend_score a =
     max (- 100) (min 100
       (pre_volume_total a +
         (if sig_volume (signals a) = Some ''high''
          then (if 0 < pre_volume_total a then 5 else - 5)
          else 0)))"
  by (simp add: get_trend_score_rubric rubric_total_def volume_points_def)

theorem volume_clause_after_sum_witness:
  "pre_volume_total only_volume = 0 \<and> get_trend_score only_volume = - 5"
proof -
  have "pre_volume_total only_volume = 0"
    by (simp add: pre_volume_total_def ma_alignment_points_def ma_cross_points_def
        macd_points_def rsi_points_def bollinger_points_def only_volume_def get_or_def
        fgt_def Let_def)
  moreover have "sig_volume (signals only_volume) = Some ''high''"
    by (simp add: only_volume_def)
  ultimately show ?thesis
    using volume_clause_after_sum [of only_volume] by simp
qed

section \<open>Properties of the signal and risk engine\<close>

lemma rounded_exact: "rounded exact v = v"
  by (cases v) (simp_all add: rounded_def exact_def)

lemma flt_fle_trans: "fle b a \<Longrightarrow> flt t b \<Longrightarrow> flt t a"
  by (cases a; cases b; cases t) simp_all






text \<open>
  Claim C9. The mapping from the composite score to the signal is monotone for every
  choice of the four thresholds (ordered or not): a composite score that is at least
  another one never gets a weaker signal, on the order strong sell < sell < hold < buy <
  strong buy.
\<close>

theorem signal_monotone:
  assumes "fge (composite_score sa) (composite_score sb)"
  shows "strength (signal (generate_signal rnd th sb))
           \<le> strength (signal (generate_signal rnd th sa))"
  using assms unfolding fge_def
  by (auto simp add: generate_signal_def Let_def fgt_def dest: flt_fle_trans)

theorem signal_monotone_witness:
  "fge (composite_score calm_generator) (composite_score rough_generator)
   \<and> signal (generate_signal exact SIGNAL_THRESHOLDS calm_generator) = Buy
   \<and> signal (generate_signal exact SIGNAL_THRESHOLDS rough_generator) = Hold
   \<and> strength (signal (generate_signal exact SIGNAL_THRESHOLDS rough_generator))
        \<le> strength (signal (generate_signal exact SIGNAL_THRESHOLDS calm_generator))"
proof -
  have c: "composite_score calm_generator = Fin 38"
    by (simp add: calm_generator_def SignalGenerator_def SCORING_CONFIG_def radd_def rmul_def
        rounded_exact exact_def)
  have r: "composite_score rough_generator = Fin (- 22)"
    by (simp add: rough_generator_def SignalGenerator_def SCORING_CONFIG_def radd_def rmul_def
        rounded_exact exact_def)
  have g: "fge (composite_score calm_generator) (composite_score rough_generator)"
    by (simp add: c r fge_def)
  have "signal (generate_signal exact SIGNAL_THRESHOLDS calm_generator) = Buy"
    by (simp add: generate_signal_def c SIGNAL_THRESHOLDS_def fgt_def Let_def)
  moreover have "signal (generate_signal exact SIGNAL_THRESHOLDS rough_generator) = Hold"
    by (simp add: generate_signal_def r SIGNAL_THRESHOLDS_def fgt_def Let_def)
  ultimately show ?thesis
    using g signal_monotone [OF g, of exact SIGNAL_THRESHOLDS] by simp
qed




section \<open>Properties of the indicator engine\<close>

subsection \<open>Series operations and the six methods\<close>

lemma iloc_last: "xs \<noteq> [] \<Longrightarrow> iloc xs (- 1) = Inr (last xs)"
  by (cases xs rule: rev_cases) (simp_all add: iloc_def nth_append)

lemma iloc_prev: "2 \<le> length xs \<Longrightarrow> iloc xs (- 2) = Inr (xs ! (length xs - 2))"
  by (simp add: iloc_def nat_diff_distrib' int_ops)

lemma iloc_Nil: "iloc [] i = Inl IndexError"
  by (simp add: iloc_def)

lemma length_rolling [simp]: "length (rolling w f col) = length col"
  by (simp add: rolling_def)

lemma length_rolling_mean [simp]: "length (rolling_mean w col) = length col"
  by (simp add: rolling_mean_def)

lemma length_rolling_std [simp]: "length (rolling_std w col) = length col"
  by (simp add: rolling_std_def)

lemma length_shift [simp]: "length (shift col) = length col"
  by (cases col) (simp_all add: shift_def)

lemma length_diff [simp]: "length (diff col) = length col"
  by (simp add: diff_def)

lemma length_ewm_from [simp]: "length (ewm_from al y xs) = length xs"
  by (induction xs arbitrary: y) (simp_all add: Let_def)

lemma length_ewm_mean [simp]: "length (ewm_mean s col) = length col"
  by (cases col) (simp_all add: ewm_mean_def)

lemma rolling_nth:
  "i < length col \<Longrightarrow>
   rolling w f col ! i =
     (if Suc i < w then NaN
      else (case finite_values (window w i col) of None \<Rightarrow> NaN | Some xs \<Rightarrow> f xs))"
  by (simp add: rolling_def)

lemma last_rolling:
  assumes "col \<noteq> []"
  shows "last (rolling w f col) =
     (if length col < w then NaN
      else (case finite_values (window w (length col - 1) col) of
              None \<Rightarrow> NaN | Some xs \<Rightarrow> f xs))"
proof -
  have n: "length col - 1 < length col" "Suc (length col - 1) = length col"
    using assms by (cases col; simp)+
  have "rolling w f col \<noteq> []"
    using assms by (simp add: rolling_def)
  then have "last (rolling w f col) = rolling w f col ! (length col - 1)"
    by (simp add: last_conv_nth)
  then show ?thesis
    using rolling_nth [OF n(1), of w f] n(2) by simp
qed

lemma finite_values_map_Fin [simp]: "finite_values (map Fin xs) = Some xs"
  by (induction xs) simp_all

lemma window_map: "window w i (map g xs) = map g (window w i xs)"
  by (simp add: window_def take_map drop_map)

lemma last_map2:
  assumes "length xs = length ys" and "xs \<noteq> []"
  shows "last (map2 g xs ys) = g (last xs) (last ys)"
proof -
  have "ys \<noteq> []" using assms by auto
  moreover have "zip xs ys \<noteq> []" using assms by (cases xs; cases ys; simp)
  ultimately show ?thesis
    using assms by (simp add: last_map last_zip)
qed

lemma last_rolling_short: "col \<noteq> [] \<Longrightarrow> length col < w \<Longrightarrow> last (rolling w f col) = NaN"
  by (simp add: last_rolling)

lemma and_then_Inr [simp]: "and_then (Inr v) f = f v"
  by (simp add: and_then_def)

lemma and_then_Inl [simp]: "and_then (Inl e) f = Inl e"
  by (simp add: and_then_def)

lemma length_close_column [simp]: "length (close_column bars) = length bars"
  by (simp add: close_column_def)

lemma close_column_Nil [simp]: "(close_column bars = []) = (bars = [])"
  by (simp add: close_column_def)

lemma rolling_mean_Nil [simp]: "(rolling_mean w col = []) = (col = [])"
  by (simp add: rolling_mean_def rolling_def)

lemma ma_column_configured:
  "period \<in> set (ma_periods TECHNICAL_CONFIG) \<Longrightarrow>
   ma_column (df a) period = Inr (rolling_mean period (close_column (df a)))"
  by (auto simp add: ma_column_def ma_columns_def TECHNICAL_CONFIG_def)

lemma ma_iloc_last:
  assumes "df a \<noteq> []" and "period \<in> set (ma_periods TECHNICAL_CONFIG)"
  shows "and_then (ma_column (df a) period) (\<lambda>col. iloc col (- 1)) = Inr (ma_latest (df a) period)"
  using assms by (simp add: ma_column_configured iloc_last ma_latest_def)

lemma ma_iloc_prev:
  assumes "2 \<le> length (df a)" and "period \<in> set (ma_periods TECHNICAL_CONFIG)"
  shows "and_then (ma_column (df a) period) (\<lambda>col. iloc col (- 2)) = Inr (ma_previous (df a) period)"
  using assms by (simp add: ma_column_configured iloc_prev ma_previous_def)

lemma collect_all_Inr: "collect (map (\<lambda>p. Inr (g p)) ps) = Inr (map g ps)"
  by (induction ps) simp_all

lemma ma_values_nonempty:
  assumes "df a \<noteq> []"
  shows "collect (map (\<lambda>p. and_then (ma_column (df a) p) (\<lambda>col. iloc col (- 1)))
                     (ma_periods TECHNICAL_CONFIG))
         = Inr (map (ma_latest (df a)) (ma_periods TECHNICAL_CONFIG))"
proof -
  have eq: "map (\<lambda>p. and_then (ma_column (df a) p) (\<lambda>col. iloc col (- 1))) (ma_periods TECHNICAL_CONFIG)
        = map (\<lambda>p. Inr (ma_latest (df a) p)) (ma_periods TECHNICAL_CONFIG)"
    using assms by (intro map_cong refl ma_iloc_last)
  show ?thesis
    unfolding eq by (rule collect_all_Inr)
qed

lemma in_periods: "5 \<in> set (ma_periods TECHNICAL_CONFIG)" "20 \<in> set (ma_periods TECHNICAL_CONFIG)"
  by (simp_all add: TECHNICAL_CONFIG_def)

lemma calculate_ma_nonempty:
  assumes "df a \<noteq> []"
  shows "calculate_ma a = Inr (ma_result a)"
proof (cases "2 \<le> length (df a)")
  case True
  then show ?thesis
    using assms
    by (simp add: calculate_ma_def ma_result_def ma_values_nonempty Let_def
        ma_iloc_last ma_iloc_prev in_periods)
next
  case False
  then show ?thesis
    using assms
    by (simp add: calculate_ma_def ma_result_def ma_values_nonempty Let_def)
qed

lemma calculate_ma_empty: "df a = [] \<Longrightarrow> calculate_ma a = Inl IndexError"
  by (simp add: calculate_ma_def TECHNICAL_CONFIG_def ma_column_def ma_columns_def
      close_column_def rolling_mean_def rolling_def iloc_Nil)

lemma df_ma_result [simp]: "df (ma_result a) = df a"
  by (simp add: ma_result_def Let_def)

lemma df_rsi_result [simp]: "df (rsi_result a) = df a"
  by (simp add: rsi_result_def Let_def)

lemma df_macd_result [simp]: "df (macd_result a) = df a"
  by (simp add: macd_result_def Let_def)

lemma df_bollinger_result [simp]: "df (bollinger_result a) = df a"
  by (simp add: bollinger_result_def Let_def)

lemma df_volume_result [simp]: "df (volume_result a) = df a"
  by (simp add: volume_result_def Let_def)

lemma df_atr_result [simp]: "df (atr_result a) = df a"
  by (simp add: atr_result_def)

lemma length_rsi_column [simp]: "length (rsi_column p close) = length close"
  by (simp add: rsi_column_def rsi_gain_def rsi_loss_def Let_def)

lemma length_macd_column [simp]: "length (macd_column close) = length close"
  by (simp add: macd_column_def)

lemma length_macd_signal_column [simp]: "length (macd_signal_column close) = length close"
  by (simp add: macd_signal_column_def)

lemma length_macd_hist_column [simp]: "length (macd_hist_column close) = length close"
  by (simp add: macd_hist_column_def)

lemma length_bb_middle_column [simp]: "length (bb_middle_column close) = length close"
  by (simp add: bb_middle_column_def)

lemma length_bb_upper_column [simp]: "length (bb_upper_column close) = length close"
  by (simp add: bb_upper_column_def)

lemma length_bb_lower_column [simp]: "length (bb_lower_column close) = length close"
  by (simp add: bb_lower_column_def)

lemma length_volume_column [simp]: "length (volume_column bars) = length bars"
  by (simp add: volume_column_def)

lemma length_true_range [simp]: "length (true_range bars) = length bars"
  by (simp add: true_range_def high_column_def low_column_def Let_def)

lemma length_atr_column [simp]: "length (atr_column bars) = length bars"
  by (simp add: atr_column_def)

lemma iloc_last_len: "0 < length xs \<Longrightarrow> iloc xs (- 1) = Inr (last xs)"
  by (simp add: iloc_last)

lemma calculate_rsi_nonempty: "df a \<noteq> [] \<Longrightarrow> calculate_rsi a = Inr (rsi_result a)"
  by (simp add: calculate_rsi_def rsi_result_def Let_def iloc_last_len)

lemma calculate_macd_total: "calculate_macd a = Inr (macd_result a)"
proof (cases "2 \<le> length (df a)")
  case True
  then have "0 < length (df a)" by linarith
  with True show ?thesis
    by (simp add: calculate_macd_def macd_result_def Let_def iloc_last_len iloc_prev)
next
  case False
  then show ?thesis
    by (simp add: calculate_macd_def macd_result_def Let_def)
qed

lemma calculate_bollinger_bands_nonempty:
  "df a \<noteq> [] \<Longrightarrow> calculate_bollinger_bands a = Inr (bollinger_result a)"
  by (simp add: calculate_bollinger_bands_def bollinger_result_def Let_def iloc_last_len)

lemma calculate_volume_indicators_nonempty:
  "df a \<noteq> [] \<Longrightarrow> calculate_volume_indicators a = Inr (volume_result a)"
  by (simp add: calculate_volume_indicators_def volume_result_def Let_def iloc_last_len)

lemma calculate_atr_nonempty: "df a \<noteq> [] \<Longrightarrow> calculate_atr a = Inr (atr_result a)"
  by (simp add: calculate_atr_def atr_result_def iloc_last_len)

lemma calculate_all_nonempty: "df a \<noteq> [] \<Longrightarrow> calculate_all a = Inr (all_result a)"
  by (simp add: calculate_all_def all_result_def calculate_ma_nonempty calculate_rsi_nonempty
      calculate_macd_total calculate_bollinger_bands_nonempty
      calculate_volume_indicators_nonempty calculate_atr_nonempty)

lemma calculate_all_empty: "df a = [] \<Longrightarrow> calculate_all a = Inl IndexError"
  by (simp add: calculate_all_def calculate_ma_empty)

lemma fle_NaN_right [simp]: "fle x NaN = False"
  by (cases x) simp_all

lemma flt_NaN_right [simp]: "flt x NaN = False"
  by (cases x) simp_all

lemma fadd_NaN_right [simp]: "fadd x NaN = NaN"
  by (cases x) simp_all

lemma fmul_NaN_right [simp]: "fmul x NaN = NaN"
  by (cases x) simp_all

lemma fdiv_NaN_right [simp]: "fdiv x NaN = NaN"
  by (cases x) simp_all

lemma fsub_NaN [simp]: "fsub x NaN = NaN" "fsub NaN y = NaN"
  by (simp_all add: fsub_def)

lemma cross_label_NaN_prev [simp]: "cross_label x NaN y z = ''none''"
  by (simp add: cross_label_def fge_def)

lemma last_rolling_mean_short:
  "0 < length col \<Longrightarrow> length col < w \<Longrightarrow> last (rolling_mean w col) = NaN"
  by (simp add: rolling_mean_def last_rolling)

lemma last_rolling_std_short:
  "0 < length col \<Longrightarrow> length col < w \<Longrightarrow> last (rolling_std w col) = NaN"
  by (simp add: rolling_std_def last_rolling)

lemma rolling_mean_nth_short:
  "i < length col \<Longrightarrow> Suc i < w \<Longrightarrow> rolling_mean w col ! i = NaN"
  by (simp add: rolling_mean_def rolling_nth)

lemma shift_Nil [simp]: "(shift col = []) = (col = [])"
  by (cases col) (simp_all add: shift_def)

lemma diff_Nil [simp]: "(diff col = []) = (col = [])"
  by (cases col; cases "shift col") (simp_all add: diff_def)

lemma rolling_Nil [simp]: "(rolling w f col = []) = (col = [])"
  by (simp add: rolling_def)

lemma rsi_gain_Nil [simp]: "(rsi_gain p close = []) = (close = [])"
  by (simp add: rsi_gain_def)

lemma rsi_loss_Nil [simp]: "(rsi_loss p close = []) = (close = [])"
  by (simp add: rsi_loss_def)


lemma last_rsi_column_short:
  assumes "close \<noteq> []" and "length close < p"
  shows "last (rsi_column p close) = NaN"
proof -
  have g: "last (rsi_gain p close) = NaN"
    using assms by (simp add: rsi_gain_def last_rolling_mean_short)
  have n: "rsi_gain p close \<noteq> []" "length (rsi_gain p close) = length (rsi_loss p close)"
    using assms by (simp_all add: rsi_gain_def rsi_loss_def)
  then have z: "map2 fdiv (rsi_gain p close) (rsi_loss p close) \<noteq> []"
    by (cases "rsi_gain p close"; cases "rsi_loss p close"; simp)
  have "last (map2 fdiv (rsi_gain p close) (rsi_loss p close)) = NaN"
    using last_map2 [OF n(2) n(1), of fdiv] g by simp
  with z show ?thesis
    by (simp add: rsi_column_def Let_def last_map)
qed

lemma rsi_short:
  assumes "df a \<noteq> []" and "length (df a) < 14"
  shows "ind_rsi (indicators (rsi_result a)) = Some NaN"
  using assms
  by (simp add: rsi_result_def Let_def TECHNICAL_CONFIG_def last_rsi_column_short)

lemma atr_short:
  assumes "df a \<noteq> []" and "length (df a) < 14"
  shows "ind_atr (indicators (atr_result a)) = Some NaN"
  using assms
  by (simp add: atr_result_def atr_column_def TECHNICAL_CONFIG_def last_rolling_mean_short)

subsection \<open>Frames shorter than a window\<close>

text \<open>Each method leaves the entries of the other methods as they are.\<close>

lemma ma_result_frame [simp]:
  "ind_rsi (indicators (ma_result a)) = ind_rsi (indicators a)"
  "ind_macd_value (indicators (ma_result a)) = ind_macd_value (indicators a)"
  "ind_macd_signal (indicators (ma_result a)) = ind_macd_signal (indicators a)"
  "ind_macd_hist (indicators (ma_result a)) = ind_macd_hist (indicators a)"
  "ind_bb_upper (indicators (ma_result a)) = ind_bb_upper (indicators a)"
  "ind_bb_middle (indicators (ma_result a)) = ind_bb_middle (indicators a)"
  "ind_bb_lower (indicators (ma_result a)) = ind_bb_lower (indicators a)"
  "ind_bb_position (indicators (ma_result a)) = ind_bb_position (indicators a)"
  "ind_volume_ratio (indicators (ma_result a)) = ind_volume_ratio (indicators a)"
  "ind_atr (indicators (ma_result a)) = ind_atr (indicators a)"
  "sig_rsi (signals (ma_result a)) = sig_rsi (signals a)"
  "sig_macd (signals (ma_result a)) = sig_macd (signals a)"
  "sig_bollinger (signals (ma_result a)) = sig_bollinger (signals a)"
  "sig_volume (signals (ma_result a)) = sig_volume (signals a)"
  by (simp_all add: ma_result_def Let_def)

lemma rsi_result_frame [simp]:
  "ind_ma_alignment (indicators (rsi_result a)) = ind_ma_alignment (indicators a)"
  "ind_macd_value (indicators (rsi_result a)) = ind_macd_value (indicators a)"
  "ind_macd_signal (indicators (rsi_result a)) = ind_macd_signal (indicators a)"
  "ind_macd_hist (indicators (rsi_result a)) = ind_macd_hist (indicators a)"
  "ind_bb_upper (indicators (rsi_result a)) = ind_bb_upper (indicators a)"
  "ind_bb_middle (indicators (rsi_result a)) = ind_bb_middle (indicators a)"
  "ind_bb_lower (indicators (rsi_result a)) = ind_bb_lower (indicators a)"
  "ind_bb_position (indicators (rsi_result a)) = ind_bb_position (indicators a)"
  "ind_volume_ratio (indicators (rsi_result a)) = ind_volume_ratio (indicators a)"
  "ind_atr (indicators (rsi_result a)) = ind_atr (indicators a)"
  "sig_ma_cross (signals (rsi_result a)) = sig_ma_cross (signals a)"
  "sig_macd (signals (rsi_result a)) = sig_macd (signals a)"
  "sig_bollinger (signals (rsi_result a)) = sig_bollinger (signals a)"
  "sig_volume (signals (rsi_result a)) = sig_volume (signals a)"
  by (simp_all add: rsi_result_def Let_def)

lemma macd_result_frame [simp]:
  "ind_ma_alignment (indicators (macd_result a)) = ind_ma_alignment (indicators a)"
  "ind_rsi (indicators (macd_result a)) = ind_rsi (indicators a)"
  "ind_bb_upper (indicators (macd_result a)) = ind_bb_upper (indicators a)"
  "ind_bb_middle (indicators (macd_result a)) = ind_bb_middle (indicators a)"
  "ind_bb_lower (indicators (macd_result a)) = ind_bb_lower (indicators a)"
  "ind_bb_position (indicators (macd_result a)) = ind_bb_position (indicators a)"
  "ind_volume_ratio (indicators (macd_result a)) = ind_volume_ratio (indicators a)"
  "ind_atr (indicators (macd_result a)) = ind_atr (indicators a)"
  "sig_ma_cross (signals (macd_result a)) = sig_ma_cross (signals a)"
  "sig_rsi (signals (macd_result a)) = sig_rsi (signals a)"
  "sig_bollinger (signals (macd_result a)) = sig_bollinger (signals a)"
  "sig_volume (signals (macd_result a)) = sig_volume (signals a)"
  by (simp_all add: macd_result_def Let_def)

lemma bollinger_result_frame [simp]:
  "ind_ma_alignment (indicators (bollinger_result a)) = ind_ma_alignment (indicators a)"
  "ind_rsi (indicators (bollinger_result a)) = ind_rsi (indicators a)"
  "ind_macd_value (indicators (bollinger_result a)) = ind_macd_value (indicators a)"
  "ind_macd_signal (indicators (bollinger_result a)) = ind_macd_signal (indicators a)"
  "ind_macd_hist (indicators (bollinger_result a)) = ind_macd_hist (indicators a)"
  "ind_volume_ratio (indicators (bollinger_result a)) = ind_volume_ratio (indicators a)"
  "ind_atr (indicators (bollinger_result a)) = ind_atr (indicators a)"
  "sig_ma_cross (signals (bollinger_result a)) = sig_ma_cross (signals a)"
  "sig_rsi (signals (bollinger_result a)) = sig_rsi (signals a)"
  "sig_macd (signals (bollinger_result a)) = sig_macd (signals a)"
  "sig_volume (signals (bollinger_result a)) = sig_volume (signals a)"
  by (simp_all add: bollinger_result_def Let_def)

lemma volume_result_frame [simp]:
  "ind_ma_alignment (indicators (volume_result a)) = ind_ma_alignment (indicators a)"
  "ind_rsi (indicators (volume_result a)) = ind_rsi (indicators a)"
  "ind_macd_value (indicators (volume_result a)) = ind_macd_value (indicators a)"
  "ind_macd_signal (indicators (volume_result a)) = ind_macd_signal (indicators a)"
  "ind_macd_hist (indicators (volume_result a)) = ind_macd_hist (indicators a)"
  "ind_bb_upper (indicators (volume_result a)) = ind_bb_upper (indicators a)"
  "ind_bb_middle (indicators (volume_result a)) = ind_bb_middle (indicators a)"
  "ind_bb_lower (indicators (volume_result a)) = ind_bb_lower (indicators a)"
  "ind_bb_position (indicators (volume_result a)) = ind_bb_position (indicators a)"
  "ind_atr (indicators (volume_result a)) = ind_atr (indicators a)"
  "sig_ma_cross (signals (volume_result a)) = sig_ma_cross (signals a)"
  "sig_rsi (signals (volume_result a)) = sig_rsi (signals a)"
  "sig_macd (signals (volume_result a)) = sig_macd (signals a)"
  "sig_bollinger (signals (volume_result a)) = sig_bollinger (signals a)"
  by (simp_all add: volume_result_def Let_def)

lemma atr_result_frame [simp]:
  "ind_ma_alignment (indicators (atr_result a)) = ind_ma_alignment (indicators a)"
  "ind_rsi (indicators (atr_result a)) = ind_rsi (indicators a)"
  "ind_macd_value (indicators (atr_result a)) = ind_macd_value (indicators a)"
  "ind_macd_signal (indicators (atr_result a)) = ind_macd_signal (indicators a)"
  "ind_macd_hist (indicators (atr_result a)) = ind_macd_hist (indicators a)"
  "ind_bb_upper (indicators (atr_result a)) = ind_bb_upper (indicators a)"
  "ind_bb_middle (indicators (atr_result a)) = ind_bb_middle (indicators a)"
  "ind_bb_lower (indicators (atr_result a)) = ind_bb_lower (indicators a)"
  "ind_bb_position (indicators (atr_result a)) = ind_bb_position (indicators a)"
  "ind_volume_ratio (indicators (atr_result a)) = ind_volume_ratio (indicators a)"
  "sig_ma_cross (signals (atr_result a)) = sig_ma_cross (signals a)"
  "sig_rsi (signals (atr_result a)) = sig_rsi (signals a)"
  "sig_macd (signals (atr_result a)) = sig_macd (signals a)"
  "sig_bollinger (signals (atr_result a)) = sig_bollinger (signals a)"
  "sig_volume (signals (atr_result a)) = sig_volume (signals a)"
  by (simp_all add: atr_result_def)

lemma df_all_result [simp]: "df (all_result a) = df a"
  by (simp add: all_result_def)

lemma all_result_rsi:
  "ind_rsi (indicators (all_result a))
     = Some (last (rsi_column (rsi_period TECHNICAL_CONFIG) (close_column (df a))))"
  by (simp add: all_result_def) (simp add: rsi_result_def Let_def)

lemma all_result_atr:
  "ind_atr (indicators (all_result a)) = Some (last (atr_column (df a)))"
  by (simp add: all_result_def) (simp add: atr_result_def)

lemma all_result_ma_alignment:
  "ind_ma_alignment (indicators (all_result a)) = ind_ma_alignment (indicators (ma_result a))"
  by (simp add: all_result_def)

lemma all_result_ma_cross:
  "sig_ma_cross (signals (all_result a)) = sig_ma_cross (signals (ma_result a))"
  by (simp add: all_result_def)

lemma all_result_macd:
  "sig_macd (signals (all_result a)) = sig_macd (signals (macd_result (rsi_result (ma_result a))))"
  "ind_macd_hist (indicators (all_result a))
     = ind_macd_hist (indicators (macd_result (rsi_result (ma_result a))))"
  by (simp_all add: all_result_def)

lemma all_result_bollinger:
  "sig_bollinger (signals (all_result a))
     = sig_bollinger (signals (bollinger_result (macd_result (rsi_result (ma_result a)))))"
  "ind_bb_upper (indicators (all_result a))
     = ind_bb_upper (indicators (bollinger_result (macd_result (rsi_result (ma_result a)))))"
  "ind_bb_middle (indicators (all_result a))
     = ind_bb_middle (indicators (bollinger_result (macd_result (rsi_result (ma_result a)))))"
  "ind_bb_lower (indicators (all_result a))
     = ind_bb_lower (indicators (bollinger_result (macd_result (rsi_result (ma_result a)))))"
  "ind_bb_position (indicators (all_result a))
     = ind_bb_position (indicators (bollinger_result (macd_result (rsi_result (ma_result a)))))"
  by (simp_all add: all_result_def)

lemma all_result_volume:
  "sig_volume (signals (all_result a))
     = sig_volume (signals (volume_result
         (bollinger_result (macd_result (rsi_result (ma_result a))))))"
  "ind_volume_ratio (indicators (all_result a))
     = ind_volume_ratio (indicators (volume_result
         (bollinger_result (macd_result (rsi_result (ma_result a))))))"
  by (simp_all add: all_result_def)

lemma fgt_NaN [simp]: "fgt x NaN = False" "fgt NaN y = False"
  by (simp_all add: fgt_def)

lemma fge_NaN [simp]: "fge x NaN = False" "fge NaN y = False"
  by (simp_all add: fge_def)

text \<open>The latest values on a frame shorter than a window.\<close>

lemma ma_latest_short:
  "bars \<noteq> [] \<Longrightarrow> length bars < period \<Longrightarrow> ma_latest bars period = NaN"
  by (simp add: ma_latest_def last_rolling_mean_short)

lemma ma_previous_short:
  "2 \<le> length bars \<Longrightarrow> length bars \<le> period \<Longrightarrow> ma_previous bars period = NaN"
  by (simp add: ma_previous_def rolling_mean_nth_short)

lemma ma_alignment_short:
  assumes "df a \<noteq> []" and "length (df a) < 50"
  shows "ind_ma_alignment (indicators (ma_result a)) = Some ''mixed''"
  using assms
  by (simp add: ma_result_def Let_def TECHNICAL_CONFIG_def ma_latest_short)

lemma ma_cross_short:
  assumes "2 \<le> length (df a)" and "length (df a) \<le> 20"
  shows "sig_ma_cross (signals (ma_result a)) = Some ''none''"
  using assms
  by (simp add: ma_result_def Let_def ma_previous_short)

lemma ma_cross_single:
  assumes "length (df a) < 2"
  shows "sig_ma_cross (signals (ma_result a)) = sig_ma_cross (signals a)"
  using assms
  by (simp add: ma_result_def Let_def)

lemma macd_single:
  assumes "length (df a) < 2"
  shows "macd_result a = a"
  using assms
  by (simp add: macd_result_def Let_def)

lemma last_bb_middle_short:
  "close \<noteq> [] \<Longrightarrow> length close < 20 \<Longrightarrow> last (bb_middle_column close) = NaN"
  by (simp add: bb_middle_column_def TECHNICAL_CONFIG_def last_rolling_mean_short)

lemma last_bb_upper_short:
  assumes "close \<noteq> []" and "length close < 20"
  shows "last (bb_upper_column close) = NaN"
proof -
  have n: "length (bb_middle_column close)
      = length (map (\<lambda>s. fmul s (Fin (bb_std TECHNICAL_CONFIG)))
          (rolling_std (bb_period TECHNICAL_CONFIG) close))"
    by simp
  have ne: "bb_middle_column close \<noteq> []"
    using assms by (simp add: bb_middle_column_def)
  show ?thesis
    using last_map2 [OF n ne, of fadd] last_bb_middle_short [OF assms]
    by (simp add: bb_upper_column_def)
qed

lemma last_bb_lower_short:
  assumes "close \<noteq> []" and "length close < 20"
  shows "last (bb_lower_column close) = NaN"
proof -
  have n: "length (bb_middle_column close)
      = length (map (\<lambda>s. fmul s (Fin (bb_std TECHNICAL_CONFIG)))
          (rolling_std (bb_period TECHNICAL_CONFIG) close))"
    by simp
  have ne: "bb_middle_column close \<noteq> []"
    using assms by (simp add: bb_middle_column_def)
  show ?thesis
    using last_map2 [OF n ne, of fsub] last_bb_middle_short [OF assms]
    by (simp add: bb_lower_column_def)
qed

lemma bollinger_short:
  assumes "df a \<noteq> []" and "length (df a) < 20"
  shows "ind_bb_upper (indicators (bollinger_result a)) = Some NaN"
    and "ind_bb_middle (indicators (bollinger_result a)) = Some NaN"
    and "ind_bb_lower (indicators (bollinger_result a)) = Some NaN"
    and "ind_bb_position (indicators (bollinger_result a)) = Some NaN"
    and "sig_bollinger (signals (bollinger_result a)) = Some ''within_bands''"
  using assms
  by (simp_all add: bollinger_result_def Let_def last_bb_upper_short last_bb_middle_short
      last_bb_lower_short)

lemma volume_short:
  assumes "df a \<noteq> []" and "length (df a) < 20"
  shows "ind_volume_ratio (indicators (volume_result a)) = Some (Fin 1)"
    and "sig_volume (signals (volume_result a)) = Some ''normal''"
  using assms
  by (simp_all add: volume_result_def Let_def TECHNICAL_CONFIG_def last_rolling_mean_short
      fgt_def)

lemma df_TechnicalAnalyzer [simp]: "df (TechnicalAnalyzer bars) = bars"
  by (simp add: TechnicalAnalyzer_def)

lemma fresh_entries [simp]:
  "sig_ma_cross (signals (TechnicalAnalyzer bars)) = None"
  "sig_macd (signals (TechnicalAnalyzer bars)) = None"
  "ind_macd_hist (indicators (TechnicalAnalyzer bars)) = None"
  by (simp_all add: TechnicalAnalyzer_def)

lemma short_rsi_points:
  assumes "bars \<noteq> []" and "length bars < 14"
  shows "ind_rsi (indicators (all_result (TechnicalAnalyzer bars))) = Some NaN"
    and "ind_atr (indicators (all_result (TechnicalAnalyzer bars))) = Some NaN"
    and "rsi_points (all_result (TechnicalAnalyzer bars)) = 0"
proof -
  show r: "ind_rsi (indicators (all_result (TechnicalAnalyzer bars))) = Some NaN"
    using assms by (simp add: all_result_rsi TECHNICAL_CONFIG_def last_rsi_column_short)
  show "ind_atr (indicators (all_result (TechnicalAnalyzer bars))) = Some NaN"
    using assms
    by (simp add: all_result_atr atr_column_def TECHNICAL_CONFIG_def last_rolling_mean_short)
  show "rsi_points (all_result (TechnicalAnalyzer bars)) = 0"
    by (simp add: rsi_points_def r get_or_def Let_def)
qed

lemma short_bollinger_points:
  assumes "bars \<noteq> []" and "length bars < 20"
  shows "ind_bb_upper (indicators (all_result (TechnicalAnalyzer bars))) = Some NaN"
    and "ind_bb_middle (indicators (all_result (TechnicalAnalyzer bars))) = Some NaN"
    and "ind_bb_lower (indicators (all_result (TechnicalAnalyzer bars))) = Some NaN"
    and "ind_bb_position (indicators (all_result (TechnicalAnalyzer bars))) = Some NaN"
    and "bollinger_points (all_result (TechnicalAnalyzer bars)) = 0"
  using assms
  by (simp_all add: all_result_bollinger bollinger_short bollinger_points_def)

lemma short_volume_points:
  assumes "bars \<noteq> []" and "length bars < 20"
  shows "ind_volume_ratio (indicators (all_result (TechnicalAnalyzer bars))) = Some (Fin 1)"
    and "volume_points (all_result (TechnicalAnalyzer bars)) = 0"
  using assms
  by (simp_all add: all_result_volume volume_short volume_points_def)

lemma short_ma_alignment_points:
  assumes "bars \<noteq> []" and "length bars < 50"
  shows "ind_ma_alignment (indicators (all_result (TechnicalAnalyzer bars))) = Some ''mixed''"
    and "ma_alignment_points (all_result (TechnicalAnalyzer bars)) = 0"
  using assms
  by (simp_all add: all_result_ma_alignment ma_alignment_short ma_alignment_points_def)

lemma short_ma_cross_points:
  assumes "length bars \<le> 20"
  shows "ma_cross_points (all_result (TechnicalAnalyzer bars)) = 0"
proof (cases "2 \<le> length bars")
  case True
  with assms show ?thesis
    by (simp add: ma_cross_points_def all_result_ma_cross ma_cross_short)
next
  case False
  then show ?thesis
    by (simp add: ma_cross_points_def all_result_ma_cross ma_cross_single)
qed

lemma short_macd_points:
  assumes "length bars < 2"
  shows "ind_macd_hist (indicators (all_result (TechnicalAnalyzer bars))) = None"
    and "macd_points (all_result (TechnicalAnalyzer bars)) = 0"
  using assms
  by (simp_all add: all_result_macd macd_single macd_points_def get_or_def fgt_def)

text \<open>
  Claim C8, as amended. On every frame with at least one row the six methods of
  \<open>calculate_all\<close> return and raise nothing. On a frame shorter than the window, the RSI
  and the ATR (14 rows) and the four Bollinger values (20 rows) are NaN, the volume ratio
  (20 rows) is 1, the alignment (50 rows) is \<open>mixed\<close>, the MA crossover (up to 20 rows)
  is \<open>none\<close> or missing, and the MACD entries are missing on a single row; each of these
  entries contributes 0 to the trend score.
\<close>

theorem short_series_policy:
  assumes "bars \<noteq> []"
  shows "\<exists>a'. calculate_all (TechnicalAnalyzer bars) = Inr a'
     \<and> (length bars < 14 \<longrightarrow>
           ind_rsi (indicators a') = Some NaN \<and> ind_atr (indicators a') = Some NaN
           \<and> rsi_points a' = 0)
     \<and> (length bars < 20 \<longrightarrow>
           ind_bb_upper (indicators a') = Some NaN \<and> ind_bb_middle (indicators a') = Some NaN
           \<and> ind_bb_lower (indicators a') = Some NaN
           \<and> ind_bb_position (indicators a') = Some NaN
           \<and> bollinger_points a' = 0
           \<and> ind_volume_ratio (indicators a') = Some (Fin 1) \<and> volume_points a' = 0)
     \<and> (length bars < 50 \<longrightarrow>
           ind_ma_alignment (indicators a') = Some ''mixed'' \<and> ma_alignment_points a' = 0)
     \<and> (length bars \<le> 20 \<longrightarrow> ma_cross_points a' = 0)
     \<and> (length bars < 2 \<longrightarrow>
           ind_macd_hist (indicators a') = None \<and> macd_points a' = 0)"
proof (intro exI conjI impI)
  show "calculate_all (TechnicalAnalyzer bars) = Inr (all_result (TechnicalAnalyzer bars))"
    using assms by (simp add: calculate_all_nonempty)
qed (use assms in \<open>simp_all add: short_rsi_points short_bollinger_points short_volume_points
      short_ma_alignment_points short_ma_cross_points short_macd_points\<close>)

theorem short_series_policy_witness:
  "\<exists>a'. calculate_all (TechnicalAnalyzer one_bar) = Inr a'
     \<and> ind_rsi (indicators a') = Some NaN \<and> ind_atr (indicators a') = Some NaN
     \<and> ind_bb_position (indicators a') = Some NaN
     \<and> ind_volume_ratio (indicators a') = Some (Fin 1)
     \<and> ind_ma_alignment (indicators a') = Some ''mixed''
     \<and> ind_macd_hist (indicators a') = None
     \<and> rubric_total a' = 0 \<and> get_trend_score a' = 0"
proof -
  have n: "one_bar \<noteq> []" "length one_bar = 1"
    by (simp_all add: one_bar_def)
  from short_series_policy [OF n(1)] obtain a' where
    a: "calculate_all (TechnicalAnalyzer one_bar) = Inr a'"
      "ind_rsi (indicators a') = Some NaN" "ind_atr (indicators a') = Some NaN"
      "ind_bb_position (indicators a') = Some NaN"
      "ind_volume_ratio (indicators a') = Some (Fin 1)"
      "ind_ma_alignment (indicators a') = Some ''mixed''"
      "ind_macd_hist (indicators a') = None"
      "rsi_points a' = 0" "bollinger_points a' = 0" "volume_points a' = 0"
      "ma_alignment_points a' = 0" "ma_cross_points a' = 0" "macd_points a' = 0"
    using n(2) by auto
  have "rubric_total a' = 0"
    by (simp add: rubric_total_def pre_volume_total_def a)
  then have "get_trend_score a' = 0"
    by (simp add: get_trend_score_rubric)
  with a \<open>rubric_total a' = 0\<close> show ?thesis
    by blast
qed

text \<open>
  Claim C8 as stated fails twice. On the empty frame the first \<open>iloc[-1]\<close> of
  \<open>calculate_ma\<close> raises IndexError. On a frame of one row the volume ratio, which lacks
  its 20 rows of history, is reported as 1 and not as a missing value.
\<close>

theorem short_series_counterexample:
  "calculate_all (TechnicalAnalyzer []) = Inl IndexError
   \<and> calculate_all (TechnicalAnalyzer one_bar) = Inr (all_result (TechnicalAnalyzer one_bar))
   \<and> ind_volume_ratio (indicators (all_result (TechnicalAnalyzer one_bar))) = Some (Fin 1)
   \<and> ind_volume_ratio (indicators (all_result (TechnicalAnalyzer one_bar))) \<noteq> Some NaN"
proof -
  have n: "one_bar \<noteq> []" "length one_bar < 20"
    by (simp_all add: one_bar_def)
  show ?thesis
    using n by (simp add: calculate_all_empty calculate_all_nonempty short_volume_points)
qed

subsection \<open>The MA crossover\<close>

lemma window_nth:
  assumes "Suc i \<le> length xs" and "w \<le> Suc i"
  shows "window w i xs = map (\<lambda>j. xs ! j) [Suc i - w..<Suc i]"
proof (rule nth_equalityI)
  have u: "length [Suc i - w..<Suc i] = w"
    using assms(2) by (simp del: upt_Suc)
  show "length (window w i xs) = length (map (\<lambda>j. xs ! j) [Suc i - w..<Suc i])"
    using assms u by (simp add: window_def del: upt_Suc)
  fix k
  assume "k < length (window w i xs)"
  then have k: "k < w"
    by (simp add: window_def)
  then have "window w i xs ! k = xs ! (Suc i - w + k)"
    using assms by (simp add: window_def)
  moreover have "[Suc i - w..<Suc i] ! k = Suc i - w + k"
    using k assms(2) by (intro nth_upt) linarith
  ultimately show "window w i xs ! k = map (\<lambda>j. xs ! j) [Suc i - w..<Suc i] ! k"
    using k u by (simp del: upt_Suc)
qed

lemma close_column_map: "close_column bars = map Fin (map Close bars)"
  by (simp add: close_column_def)

lemma rolling_mean_sma:
  assumes "i < length bars"
  shows "rolling_mean w (close_column bars) ! i = sma (map Close bars) w i"
proof (cases "Suc i < w")
  case True
  with assms show ?thesis
    by (simp add: rolling_mean_nth_short sma_def)
next
  case False
  then have w: "w \<le> Suc i" by simp
  have l: "Suc i \<le> length (map Close bars)" using assms by simp
  have len: "length (window w i (map Close bars)) = w"
    using l w by (simp add: window_def)
  have f: "finite_values (window w i (close_column bars)) = Some (window w i (map Close bars))"
    by (simp only: close_column_map window_map finite_values_map_Fin)
  have "rolling_mean w (close_column bars) ! i = mean (window w i (map Close bars))"
    using assms False
    by (simp add: rolling_mean_def rolling_nth f)
  also have "\<dots> = Fin (sum_list (window w i (map Close bars)) / real w)"
    by (simp add: mean_def len)
  also have "\<dots> = sma (map Close bars) w i"
    using False by (simp add: sma_def window_nth [OF l w])
  finally show ?thesis .
qed

lemma ma_latest_sma:
  assumes "bars \<noteq> []"
  shows "ma_latest bars w = sma (map Close bars) w (length bars - 1)"
proof -
  have "rolling_mean w (close_column bars) \<noteq> []"
    using assms by simp
  then have "ma_latest bars w = rolling_mean w (close_column bars) ! (length bars - 1)"
    by (simp add: ma_latest_def last_conv_nth)
  moreover have "length bars - 1 < length bars"
    using assms by (cases bars) simp_all
  ultimately show ?thesis
    by (simp add: rolling_mean_sma)
qed

lemma ma_previous_sma:
  assumes "2 \<le> length bars"
  shows "ma_previous bars w = sma (map Close bars) w (length bars - 2)"
proof -
  have "length bars - 2 < length bars"
    using assms by linarith
  then show ?thesis
    by (simp add: ma_previous_def rolling_mean_sma)
qed

lemma ma_cross_sma:
  assumes "2 \<le> length (df a)"
  shows "sig_ma_cross (signals (ma_result a)) =
     Some (cross_label (sma (map Close (df a)) 5 (length (df a) - 2))
                       (sma (map Close (df a)) 20 (length (df a) - 2))
                       (sma (map Close (df a)) 5 (length (df a) - 1))
                       (sma (map Close (df a)) 20 (length (df a) - 1)))"
proof -
  have ne: "df a \<noteq> []" using assms by auto
  show ?thesis
    using assms by (simp add: ma_result_def Let_def ma_previous_sma ma_latest_sma [OF ne])
qed

text \<open>
  Claim C3, as amended. For every frame of at least 2 bars the MA crossover signal is
  computed from the 5-bar and the 20-bar averages (the first and the third of the
  configured windows) at the last two bars: \<open>golden_cross\<close> when the 5-bar average was at
  most the 20-bar average one bar ago and is strictly greater now, \<open>death_cross\<close> for the
  mirror condition, else \<open>none\<close>; a comparison with an average that has no value yet is
  false.
\<close>

theorem ma_cross_five_twenty:
  assumes "2 \<le> length (df a)"
  shows "\<exists>a'. calculate_ma a = Inr a'
     \<and> sig_ma_cross (signals a') =
         Some (let closes = map Close (df a); n = length closes
               in if fle (sma closes 5 (n - 2)) (sma closes 20 (n - 2))
                     \<and> fgt (sma closes 5 (n - 1)) (sma closes 20 (n - 1))
                  then ''golden_cross''
                  else if fge (sma closes 5 (n - 2)) (sma closes 20 (n - 2))
                     \<and> flt (sma closes 5 (n - 1)) (sma closes 20 (n - 1))
                  then ''death_cross''
                  else ''none'')"
proof -
  have ne: "df a \<noteq> []" using assms by auto
  show ?thesis
    using ma_cross_sma [OF assms]
    by (simp add: calculate_ma_nonempty [OF ne] cross_label_def Let_def)
qed

lemma dip_sma:
  "sma dip_closes 5 20 = Fin 10" "sma dip_closes 10 20 = Fin 10" "sma dip_closes 20 20 = Fin 20"
  "sma dip_closes 5 21 = Fin 12" "sma dip_closes 10 21 = Fin 11"
  "sma dip_closes 20 21 = Fin (39 / 2)"
  by (simp_all add: sma_def dip_closes_def upt_rec)

lemma step_sma:
  "sma step_closes 5 19 = Fin 10" "sma step_closes 20 19 = Fin 10"
  "sma step_closes 5 20 = Fin 12" "sma step_closes 20 20 = Fin (21 / 2)"
  by (simp_all add: sma_def step_closes_def upt_rec)

lemma Close_flat_bar: "map Close (map flat_bar cs) = cs"
  by (induction cs) (simp_all add: flat_bar_def)

lemma Close_step_series: "map Close step_series = step_closes"
  unfolding step_series_def by (rule Close_flat_bar)

lemma Close_dip_series: "map Close dip_series = dip_closes"
  unfolding dip_series_def by (rule Close_flat_bar)

theorem ma_cross_five_twenty_witness:
  "\<exists>a'. calculate_ma (TechnicalAnalyzer step_series) = Inr a'
     \<and> sig_ma_cross (signals a') = Some ''golden_cross''"
proof -
  have l: "length step_series = 21" "length step_closes = 21"
    by (simp_all add: step_series_def step_closes_def)
  then have n: "2 \<le> length (df (TechnicalAnalyzer step_series))"
    by simp
  show ?thesis
    using ma_cross_five_twenty [OF n]
    by (simp add: Close_step_series l step_sma Let_def fgt_def fge_def)
qed

text \<open>
  Claim C3 as stated fails: on the frame \<open>dip_series\<close> the two shortest configured windows,
  5 and 10, give a golden cross (the averages are 10 and 10 one bar ago, 12 and 11 now),
  while the program compares the 5-bar with the 20-bar average (10 and 20 one bar ago, 12
  and 19.5 now) and reports \<open>none\<close>.
\<close>

theorem ma_cross_two_shortest_counterexample:
  "calculate_ma (TechnicalAnalyzer dip_series) = Inr (ma_result (TechnicalAnalyzer dip_series))
   \<and> sig_ma_cross (signals (ma_result (TechnicalAnalyzer dip_series))) = Some ''none''
   \<and> spec_ma_cross (map Close dip_series) = Some ''golden_cross''"
proof -
  have l: "length dip_series = 22"
    by (simp add: dip_series_def dip_closes_def)
  then have n: "2 \<le> length (df (TechnicalAnalyzer dip_series))"
    and ne: "df (TechnicalAnalyzer dip_series) \<noteq> []"
    by auto
  have len: "length dip_closes = 22"
    by (simp add: dip_closes_def)
  have code: "sig_ma_cross (signals (ma_result (TechnicalAnalyzer dip_series))) = Some ''none''"
    using ma_cross_sma [OF n] l
    by (simp add: Close_dip_series dip_sma cross_label_def fgt_def fge_def)
  have spec: "spec_ma_cross dip_closes = Some ''golden_cross''"
    by (simp add: spec_ma_cross_def TECHNICAL_CONFIG_def len dip_sma Let_def fgt_def fge_def)
  show ?thesis
    using code spec calculate_ma_nonempty [OF ne] by (simp add: Close_dip_series)
qed

subsection \<open>The Bollinger position on coinciding bands\<close>

text \<open>The latest value of a rolling function over a full window of finite numbers.\<close>

lemma last_rolling_finite:
  assumes "w \<le> length col" and "0 < w"
    and "window w (length col - 1) col = map Fin xs"
  shows "last (rolling w f col) = f xs"
proof -
  have ne: "col \<noteq> []" using assms(1,2) by auto
  show ?thesis
    using assms by (simp add: last_rolling [OF ne])
qed

















subsection \<open>The stop-loss method on a flat frame\<close>

lemma shift_nth:
  assumes "j < length col"
  shows "shift col ! j = (if j = 0 then NaN else col ! (j - 1))"
proof (cases col)
  case Nil
  with assms show ?thesis by simp
next
  case (Cons x xs)
  show ?thesis
  proof (cases j)
    case 0
    then show ?thesis by (simp add: shift_def Cons)
  next
    case (Suc k)
    then have "k < length (butlast col)"
      using assms by simp
    then have "butlast col ! k = col ! k"
      by (rule nth_butlast)
    then show ?thesis
      by (simp add: shift_def Cons Suc)
  qed
qed














subsection \<open>The RSI without losses\<close>

lemma diff_close_nth:
  assumes "j < length bars"
  shows "diff (close_column bars) ! j =
     (if j = 0 then NaN else Fin (Close (bars ! j) - Close (bars ! (j - 1))))"
  using assms
  by (simp add: diff_def shift_nth) (simp add: close_column_def fsub_def)

lemma rising_nth:
  assumes "rising_window (map Close bars)"
    and "length bars - 14 \<le> j" and "j < length bars" and "0 < j"
  shows "Close (bars ! (j - 1)) < Close (bars ! j)"
proof -
  have "j \<in> set [max 1 (length bars - 14)..<length bars]"
    using assms(2-4) by simp
  with assms(1) have "map Close bars ! (j - 1) < map Close bars ! j"
    by (simp add: rising_window_def TECHNICAL_CONFIG_def list_all_iff)
  then show ?thesis
    using assms(3) by simp
qed

lemma gain_input_rising:
  assumes "rising_window (map Close bars)"
    and "length bars - 14 \<le> j" and "j < length bars"
  shows "map (\<lambda>d. if fgt d (Fin 0) then d else Fin 0) (diff (close_column bars)) ! j
         = Fin (step_up bars j)"
proof (cases "j = 0")
  case True
  with assms(3) show ?thesis
    by (simp add: diff_close_nth step_up_def)
next
  case False
  then have "Close (bars ! (j - 1)) < Close (bars ! j)"
    using rising_nth [OF assms] by simp
  with False assms(3) show ?thesis
    by (simp add: diff_close_nth step_up_def fgt_def)
qed

lemma loss_input_rising:
  assumes "rising_window (map Close bars)"
    and "length bars - 14 \<le> j" and "j < length bars"
  shows "map (\<lambda>d. fneg (if flt d (Fin 0) then d else Fin 0)) (diff (close_column bars)) ! j
         = Fin 0"
proof (cases "j = 0")
  case True
  with assms(3) show ?thesis
    by (simp add: diff_close_nth)
next
  case False
  then have "Close (bars ! (j - 1)) < Close (bars ! j)"
    using rising_nth [OF assms] by simp
  with False assms(3) show ?thesis
    by (simp add: diff_close_nth)
qed

lemma last_rolling_mean_nth:
  assumes n: "14 \<le> length col"
    and v: "\<And>j. length col - 14 \<le> j \<Longrightarrow> j < length col \<Longrightarrow> col ! j = Fin (g j)"
  shows "last (rolling_mean 14 col)
         = Fin (sum_list (map g [length col - 14..<length col]) / 14)"
proof -
  let ?n = "length col"
  have s: "Suc (?n - 1) = ?n" using n by simp
  have l: "Suc (?n - 1) \<le> length col" "14 \<le> Suc (?n - 1)"
    using n by (simp_all add: s)
  have "window 14 (?n - 1) col = map (\<lambda>j. col ! j) [?n - 14..<?n]"
    using window_nth [OF l] by (simp only: s)
  also have "\<dots> = map (\<lambda>j. Fin (g j)) [?n - 14..<?n]"
    by (intro map_cong refl v) simp_all
  also have "\<dots> = map Fin (map g [?n - 14..<?n])"
    by simp
  finally have w: "window 14 (?n - 1) col = map Fin (map g [?n - 14..<?n])" .
  have len: "length (map g [?n - 14..<?n]) = 14"
    using n by simp
  show ?thesis
    using last_rolling_finite [OF n _ w, of mean]
    by (simp only: rolling_mean_def mean_def len) simp
qed

lemma rising_length: "rising_window (map Close bars) \<Longrightarrow> 14 \<le> length bars"
  by (simp add: rising_window_def TECHNICAL_CONFIG_def)

lemma step_up_rising:
  assumes "rising_window (map Close bars)"
    and "length bars - 14 \<le> j" and "j < length bars"
  shows "0 \<le> step_up bars j" and "0 < j \<Longrightarrow> 0 < step_up bars j"
  using rising_nth [OF assms] by (auto simp add: step_up_def)

lemma rsi_loss_rising:
  assumes "rising_window (map Close bars)"
  shows "last (rsi_loss 14 (close_column bars)) = Fin 0"
proof -
  let ?col = "map (\<lambda>d. fneg (if flt d (Fin 0) then d else Fin 0)) (diff (close_column bars))"
  have n: "14 \<le> length ?col"
    using rising_length [OF assms] by simp
  have "last (rolling_mean 14 ?col)
      = Fin (sum_list (map (\<lambda>j. 0) [length ?col - 14..<length ?col]) / 14)"
    using n loss_input_rising [OF assms] by (intro last_rolling_mean_nth) simp_all
  then show ?thesis
    by (simp add: rsi_loss_def)
qed

lemma rsi_gain_rising:
  assumes "rising_window (map Close bars)"
  shows "\<exists>g. 0 < g \<and> last (rsi_gain 14 (close_column bars)) = Fin g"
proof -
  let ?col = "map (\<lambda>d. if fgt d (Fin 0) then d else Fin 0) (diff (close_column bars))"
  let ?n = "length bars"
  have n: "14 \<le> ?n"
    using rising_length [OF assms] .
  then have nc: "14 \<le> length ?col" by simp
  have "last (rolling_mean 14 ?col)
      = Fin (sum_list (map (step_up bars) [length ?col - 14..<length ?col]) / 14)"
    using nc gain_input_rising [OF assms] by (intro last_rolling_mean_nth) simp_all
  then have g: "last (rsi_gain 14 (close_column bars))
      = Fin (sum_list (map (step_up bars) [?n - 14..<?n]) / 14)"
    by (simp add: rsi_gain_def)
  have split: "[?n - 14..<?n] = [?n - 14..<?n - 1] @ [?n - 1]"
  proof -
    have e: "Suc (?n - 1) = ?n" using n by simp
    have "[?n - 14..<Suc (?n - 1)] = [?n - 14..<?n - 1] @ [?n - 1]"
      using n by (intro upt_Suc_append) simp
    then show ?thesis
      unfolding e .
  qed
  have front: "0 \<le> sum_list (map (step_up bars) [?n - 14..<?n - 1])"
  proof (rule sum_list_nonneg)
    fix x
    assume "x \<in> set (map (step_up bars) [?n - 14..<?n - 1])"
    then obtain j where j: "x = step_up bars j" "?n - 14 \<le> j" "j < ?n - 1"
      by auto
    then have "j < ?n" by simp
    with step_up_rising(1) [OF assms j(2)] j(1) show "0 \<le> x" by simp
  qed
  have lastpos: "0 < step_up bars (?n - 1)"
    using n by (intro step_up_rising(2) [OF assms]) simp_all
  have "0 < sum_list (map (step_up bars) [?n - 14..<?n])"
    unfolding split using front lastpos by simp
  then have "0 < sum_list (map (step_up bars) [?n - 14..<?n]) / 14"
    by simp
  with g show ?thesis
    by blast
qed

lemma last_rsi_column:
  assumes "close \<noteq> []"
  shows "last (rsi_column p close) =
     fsub (Fin 100) (fdiv (Fin 100)
       (fadd (Fin 1) (fdiv (last (rsi_gain p close)) (last (rsi_loss p close)))))"
proof -
  have n: "rsi_gain p close \<noteq> []" "length (rsi_gain p close) = length (rsi_loss p close)"
    using assms by (simp_all add: rsi_gain_def rsi_loss_def)
  then have z: "map2 fdiv (rsi_gain p close) (rsi_loss p close) \<noteq> []"
    by (cases "rsi_gain p close"; cases "rsi_loss p close"; simp)
  show ?thesis
    using last_map2 [OF n(2) n(1), of fdiv] z
    by (simp add: rsi_column_def Let_def last_map)
qed

lemma rsi_zero_loss:
  assumes "close \<noteq> []"
    and "last (rsi_loss p close) = Fin 0" and "last (rsi_gain p close) = Fin g" and "0 < g"
  shows "last (rsi_column p close) = Fin 100"
  using assms by (simp add: last_rsi_column fsub_def)

lemma rsi_result_entries:
  "ind_rsi (indicators (rsi_result a))
     = Some (last (rsi_column (rsi_period TECHNICAL_CONFIG) (close_column (df a))))"
  "sig_rsi (signals (rsi_result a))
     = Some (if fgt (last (rsi_column (rsi_period TECHNICAL_CONFIG) (close_column (df a))))
                    (Fin 70) then ''overbought''
             else if flt (last (rsi_column (rsi_period TECHNICAL_CONFIG) (close_column (df a))))
                         (Fin 30) then ''oversold''
             else ''neutral'')"
  by (simp_all add: rsi_result_def Let_def)

lemma rsi_hundred_result:
  assumes "df a \<noteq> []"
    and "(last (rsi_loss (rsi_period TECHNICAL_CONFIG) (close_column (df a))) = Fin 0
          \<and> (\<exists>g. 0 < g
                \<and> last (rsi_gain (rsi_period TECHNICAL_CONFIG) (close_column (df a))) = Fin g))
         \<or> rising_window (map Close (df a))"
  shows "last (rsi_column (rsi_period TECHNICAL_CONFIG) (close_column (df a))) = Fin 100"
proof -
  have p: "rsi_period TECHNICAL_CONFIG = 14"
    by (simp add: TECHNICAL_CONFIG_def)
  have ne: "close_column (df a) \<noteq> []"
    using assms(1) by simp
  from assms(2) have "last (rsi_loss 14 (close_column (df a))) = Fin 0
      \<and> (\<exists>g. 0 < g \<and> last (rsi_gain 14 (close_column (df a))) = Fin g)"
    using rsi_loss_rising rsi_gain_rising unfolding p by blast
  then show ?thesis
    unfolding p using rsi_zero_loss [OF ne] by blast
qed

text \<open>
  Claim C5. On every frame with at least one row whose average loss over the RSI window
  is zero while the average gain is positive (in particular on every frame whose closes
  rise strictly across the lookback window), \<open>calculate_rsi\<close> returns, raising nothing,
  and the RSI it stores is 100: the quotient of the averages is the infinity of the
  floating-point division, and 100 - 100 / (1 + infinity) is 100. The signal is
  \<open>overbought\<close>.
\<close>

theorem rsi_hundred:
  assumes "df a \<noteq> []"
    and "(last (rsi_loss (rsi_period TECHNICAL_CONFIG) (close_column (df a))) = Fin 0
          \<and> (\<exists>g. 0 < g
                \<and> last (rsi_gain (rsi_period TECHNICAL_CONFIG) (close_column (df a))) = Fin g))
         \<or> rising_window (map Close (df a))"
  shows "\<exists>a'. calculate_rsi a = Inr a'
     \<and> ind_rsi (indicators a') = Some (Fin 100)
     \<and> sig_rsi (signals a') = Some ''overbought''"
  using rsi_hundred_result [OF assms]
  by (simp add: calculate_rsi_nonempty [OF assms(1)] rsi_result_entries fgt_def)

lemma rise_series_rising: "rising_window (map Close rise_series)"
proof -
  have c: "map Close rise_series = rise_closes"
    unfolding rise_series_def by (rule Close_flat_bar)
  show ?thesis
    unfolding c
    by (simp add: rising_window_def TECHNICAL_CONFIG_def rise_closes_def upt_rec)
qed

theorem rsi_hundred_witness:
  "rising_window (map Close (df (TechnicalAnalyzer rise_series)))
   \<and> (\<exists>a'. calculate_rsi (TechnicalAnalyzer rise_series) = Inr a'
         \<and> ind_rsi (indicators a') = Some (Fin 100)
         \<and> sig_rsi (signals a') = Some ''overbought'')"
proof -
  have ne: "df (TechnicalAnalyzer rise_series) \<noteq> []"
    by (simp add: rise_series_def rise_closes_def)
  have r: "rising_window (map Close (df (TechnicalAnalyzer rise_series)))"
    using rise_series_rising by simp
  show ?thesis
    using rsi_hundred [OF ne disjI2, OF r] r by blast
qed

end
